theory Spec2Isabelle
  imports Main "HOL-Library.Word"
begin

section \<open>The dynamic type system of eirrepo/sdk/DynamicTypeSystem.h\<close>

text \<open>
  The header defines one class template, \<open>DynamicTypeSystem\<close>. Its methods are embedded
  below as HOL functions over a record of the memory the class works on. Pointers are
  64-bit words; a pointer that may be \<open>nullptr\<close> is an \<open>option\<close> with \<open>None\<close> for
  \<open>nullptr\<close>. \<open>size_t\<close> is a 64-bit word, \<open>unsigned long\<close> a 32-bit word (the header
  uses the \<open>abstract\<close> keyword of the Microsoft compiler, whose \<open>unsigned long\<close> has
  32 bits); \<open>+\<close> and \<open>-\<close> wrap as the C++ operators do.

  The lock provider defaults to \<open>dtsDefaultLockProvider\<close>, whose every operation is a
  no-op, and every lock of the class is taken and released by a scoped object, so locks
  carry no state between calls and are left out. The \<open>systemPointer_t *sysPtr\<close> argument
  is handed through to the callbacks unchanged and is left out as well.
\<close>

type_synonym addr = "64 word"
type_synonym size_t = "64 word"
type_synonym ulong = "32 word"
type_synonym pluginOffset_t = "64 word"

subsection \<open>Exceptions and assertions\<close>

text \<open>
  The three exception classes of the system, an exception thrown by user code, and the
  failure of an \<open>rtti_assert\<close>. \<open>rtti_assert\<close> is \<open>assert\<close> unless the host defines it; the
  model is the build in which assertions are checked, where a failing assertion ends the
  call (with \<open>NDEBUG\<close> the macro expands to nothing and the call goes on).
\<close>

datatype exn =
    abstraction_construction_exception
  | type_name_conflict_exception
  | undefined_method_exception
  | user_exception nat
  | assertion_failure

definition rtti_assert :: "bool \<Rightarrow> exn + unit" where
  "rtti_assert x = (if x then Inr () else Inl assertion_failure)"

subsection \<open>GenericRTTI and the header/payload pointer conversions\<close>

record GenericRTTI =
  type_meta :: addr

text \<open>
  \<open>sizeof( GenericRTTI )\<close>: one pointer; under \<open>_DEBUG\<close> the struct has the second
  member \<open>typesys_ptr\<close> and twice the size. No theorem below depends on the value.
\<close>

definition sizeof_GenericRTTI :: size_t where
  "sizeof_GenericRTTI = 8"

text \<open>\<open>return (void*)( rtObj + 1 );\<close>\<close>

definition GetObjectFromTypeStruct :: "addr \<Rightarrow> addr" where
  "GetObjectFromTypeStruct rtObj = rtObj + 1 * sizeof_GenericRTTI"

text \<open>\<open>return ( (GenericRTTI*)langObj - 1 );\<close>\<close>

definition GetTypeStructFromObject :: "addr \<Rightarrow> addr" where
  "GetTypeStructFromObject langObj = langObj - 1 * sizeof_GenericRTTI"

subsection \<open>The type path iterator\<close>

text \<open>
  A \<open>const char*\<close> path is a text and an index into it. Reading at or past the end of the
  text gives the terminating NUL.
\<close>

definition char_at :: "string \<Rightarrow> nat \<Rightarrow> char" where
  "char_at s i = (if i < length s then s ! i else CHR 0x00)"

text \<open>\<open>strncmp( curPtr, "::", 2 ) == 0\<close>\<close>

definition strncmp_colons :: "string \<Rightarrow> nat \<Rightarrow> bool" where
  "strncmp_colons s curPtr = (char_at s curPtr = CHR '':'' \<and> char_at s (curPtr + 1) = CHR '':'')"

record type_resolution_iterator =
  typePath :: nat
  type_iter_ptr :: nat
  tokenLen :: nat

text \<open>
  The \<open>while ( true )\<close> loop of \<open>Increment\<close>: from \<open>type_iter_ptr\<close> it returns
  \<open>currentTokenLen\<close> and the new \<open>type_iter_ptr\<close>.
\<close>

function Increment_loop :: "string \<Rightarrow> nat \<Rightarrow> nat \<Rightarrow> nat \<times> nat" where
  [simp del]: "Increment_loop s tp curPtr =
     (if char_at s curPtr = CHR 0x00 then (curPtr - tp, curPtr)
      else if strncmp_colons s curPtr then (curPtr - tp, curPtr + 2)
      else Increment_loop s tp (curPtr + 1))"
  by pat_completeness auto
termination
  by (relation "measure (\<lambda>(s, tp, curPtr). length s - curPtr)")
     (auto simp: char_at_def split: if_splits)

definition Increment :: "string \<Rightarrow> type_resolution_iterator \<Rightarrow> type_resolution_iterator" where
  "Increment s it =
     (let tp = type_iter_ptr it;
          (currentTokenLen, ip) = Increment_loop s tp (type_iter_ptr it)
      in \<lparr> typePath = tp, type_iter_ptr = ip, tokenLen = currentTokenLen \<rparr>)"

text \<open>The constructor \<open>type_resolution_iterator( typeSys, typePath )\<close>.\<close>

definition type_resolution_iterator_new :: "string \<Rightarrow> type_resolution_iterator" where
  "type_resolution_iterator_new s =
     Increment s \<lparr> typePath = 0, type_iter_ptr = 0, tokenLen = 0 \<rparr>"

text \<open>\<open>Resolve\<close>: the string of \<open>tokenLen\<close> characters at \<open>typePath\<close>.\<close>

definition Resolve :: "string \<Rightarrow> type_resolution_iterator \<Rightarrow> string" where
  "Resolve s it = take (tokenLen it) (drop (typePath it) s)"

definition IsEnd :: "type_resolution_iterator \<Rightarrow> bool" where
  "IsEnd it = (typePath it = type_iter_ptr it)"

subsection \<open>Plugin descriptors and the plugin registry of one type\<close>

text \<open>
  \<open>PluginFactory.h\<close>, which defines \<open>AnonymousPluginStructRegistry\<close> and its
  \<open>pluginInterface\<close>, is not among the sources; what the header uses of them is modelled
  from sections 4.D and 6 of the spec.

  What the callbacks of a plugin or of a type do to the object memory is not visible to the
  type system. The system record below keeps, in \<open>livePlugins\<close>, the plugin structs that
  have been constructed and not yet destructed; \<open>livePayloads\<close> does the same for the
  payload structs and \<open>allocated\<close> for the blocks of the allocator.
\<close>

text \<open>
  Modelled from the spec: \<open>pluginInterface\<close> of \<open>PluginFactory.h\<close>. Section 4.D:
  \<open>construct(object, offset, system_ptr) -> bool\<close>, \<open>destruct(object, offset, system_ptr)\<close>,
  \<open>assign(dst_object, src_object, offset, system_ptr) -> bool\<close>. A plugin is given by the
  results of its constructor and of its assignment; its destructor has no result.
\<close>

record pluginInterface =
  OnPluginConstruct :: "addr \<Rightarrow> bool"
  OnPluginAssign :: "addr \<Rightarrow> addr \<Rightarrow> bool"

text \<open>\<open>struct pluginDescriptor\<close> of the header.\<close>

record pluginDescriptor =
  pluginId :: "32 word"
  typeInfo :: "addr option"

text \<open>
  Modelled from the spec: an entry of \<open>AnonymousPluginStructRegistry\<close>. Section 6:
  \<open>register_plugin(size, key, iface) -> PluginOffset\<close>; the entry keeps the three arguments
  and the token returned.
\<close>

record regPlugin =
  pluginSize :: size_t
  pluginOffset :: pluginOffset_t
  descriptor :: pluginDescriptor
  plugInterface :: pluginInterface

text \<open>
  Modelled from the spec: \<open>AnonymousPluginStructRegistry\<close>, the registered plugins in
  registration order (section 6: "bulk operations over all registered plugins in
  registration order").
\<close>

type_synonym structRegistry_t = "regPlugin list"

text \<open>A constructed plugin struct: the object, the plugin's token and its descriptor.\<close>

type_synonym pluginInst = "addr \<times> pluginOffset_t \<times> pluginDescriptor"

definition ANONYMOUS_PLUGIN_ID :: "32 word" where
  "ANONYMOUS_PLUGIN_ID = 0xFFFFFFFF"

definition INVALID_PLUGIN_OFFSET :: pluginOffset_t where
  "INVALID_PLUGIN_OFFSET = - 1"

definition IsOffsetValid :: "pluginOffset_t \<Rightarrow> bool" where
  "IsOffsetValid offset = (offset \<noteq> INVALID_PLUGIN_OFFSET)"

subsection \<open>Type interfaces, type descriptors and the system\<close>

text \<open>
  \<open>struct typeInterface\<close>. \<open>Construct\<close>, \<open>CopyConstruct\<close> and \<open>Destruct\<close> return \<open>void\<close> or
  throw: the result here is the exception thrown, if any. The three carry the prefix \<open>t\<close>,
  as \<open>Construct\<close> is also a method of the system. The arguments are the pointers the
  methods get (\<open>mem\<close> and \<open>construct_params\<close>, \<open>mem\<close> and \<open>srcMem\<close>, \<open>mem\<close>).
\<close>

record typeInterface =
  tConstruct :: "addr \<Rightarrow> addr \<Rightarrow> exn option"
  tCopyConstruct :: "addr \<Rightarrow> addr \<Rightarrow> exn option"
  tDestruct :: "addr \<Rightarrow> exn option"
  GetTypeSize :: "addr \<Rightarrow> size_t"
  GetTypeSizeByObject :: "addr \<Rightarrow> size_t"

text \<open>
  \<open>struct typeInfoBase\<close>, without \<open>typeSys\<close> (the system itself), \<open>typeLock\<close> and the
  list node. A name is the text of the C string.
\<close>

record typeInfoBase =
  name :: string
  tInterface :: typeInterface
  refCount :: ulong
  inheritanceCount :: ulong
  isExclusive :: bool
  isAbstract :: bool
  inheritsFrom :: "addr option"
  structRegistry :: structRegistry_t

definition IsImmutable :: "typeInfoBase \<Rightarrow> bool" where
  "IsImmutable ti = (refCount ti \<noteq> 0)"

definition IsEndType :: "typeInfoBase \<Rightarrow> bool" where
  "IsEndType ti = (inheritanceCount ti = 0)"

text \<open>
  The system and the memory it works on: \<open>typeInfos\<close> holds the \<open>typeInfoBase\<close> structs
  by address, \<open>registeredTypes\<close> is the intrusive list of them (first node first),
  \<open>rttiMem\<close> holds the \<open>GenericRTTI\<close> headers written into object memory.
\<close>

record DynamicTypeSystem =
  typeInfos :: "addr \<rightharpoonup> typeInfoBase"
  registeredTypes :: "addr list"
  rttiMem :: "addr \<rightharpoonup> GenericRTTI"
  allocated :: "addr list"
  livePayloads :: "addr list"
  livePlugins :: "pluginInst list"

text \<open>
  \<open>allocatorType\<close> is a template parameter: from the size, the alignment and the blocks in
  use it gives a pointer or \<open>nullptr\<close>.
\<close>

type_synonym allocatorType = "size_t \<Rightarrow> size_t \<Rightarrow> addr list \<Rightarrow> addr option"

text \<open>
  \<open>allocatorType::Allocate\<close> and \<open>allocatorType::Free\<close>, with the blocks in use kept in
  \<open>allocated\<close>.
\<close>

definition Allocate ::
  "allocatorType \<Rightarrow> size_t \<Rightarrow> size_t \<Rightarrow> DynamicTypeSystem \<Rightarrow> addr option \<times> DynamicTypeSystem" where
  "Allocate al memSize alignment w =
     (case al memSize alignment (allocated w) of
        None \<Rightarrow> (None, w)
      | Some p \<Rightarrow> (Some p, w\<lparr>allocated := p # allocated w\<rparr>))"

definition Free :: "addr \<Rightarrow> DynamicTypeSystem \<Rightarrow> DynamicTypeSystem" where
  "Free memPtr w = w\<lparr>allocated := remove1 memPtr (allocated w)\<rparr>"

definition STANDARD_OBJECT_ALIGNMENT :: size_t where
  "STANDARD_OBJECT_ALIGNMENT = 8"

subsection \<open>Finding and resolving types\<close>

text \<open>
  \<open>FindTypeInfoNolock\<close> walks \<open>registeredTypes\<close> from the first node and returns the first
  item with \<open>baseType == item->inheritsFrom\<close> and \<open>strcmp( item->name, typeName ) == 0\<close>.
\<close>

definition FindTypeInfoNolock :: "string \<Rightarrow> addr option \<Rightarrow> DynamicTypeSystem \<Rightarrow> addr option" where
  "FindTypeInfoNolock typeName baseType w =
     find (\<lambda>item. case typeInfos w item of
                    None \<Rightarrow> False
                  | Some ti \<Rightarrow> baseType = inheritsFrom ti \<and> name ti = typeName)
          (registeredTypes w)"

definition FindTypeInfo :: "string \<Rightarrow> addr option \<Rightarrow> DynamicTypeSystem \<Rightarrow> addr option" where
  "FindTypeInfo typeName baseType w = FindTypeInfoNolock typeName baseType w"

text \<open>
  The \<open>while ( type_path_iter.IsEnd() == false )\<close> loop of \<open>ResolveTypeInfo\<close>, on the path
  text \<open>s\<close>.
\<close>

function ResolveTypeInfo_loop ::
  "string \<Rightarrow> DynamicTypeSystem \<Rightarrow> type_resolution_iterator \<Rightarrow> addr option \<Rightarrow> addr option" where
  [simp del]: "ResolveTypeInfo_loop s w it currentType =
     (if IsEnd it = False then
        (let curToken = Resolve s it;
             found = FindTypeInfo curToken currentType w
         in if found = None then found
            else ResolveTypeInfo_loop s w (Increment s it) found)
      else currentType)"
  by pat_completeness auto
termination
proof (relation "measure (\<lambda>(s, w, it, c). 2 * (length s - type_iter_ptr it) + (if IsEnd it then 0 else 1))",
       goal_cases)
  case 1
  show ?case by simp
next
  case (2 s w it currentType curToken found)
  have bounds: "Increment_loop s tp ip = (n, ip') \<Longrightarrow>
      ip \<le> ip' \<and> (ip' = ip \<or> (ip < length s \<and> ip' \<le> length s))" for tp ip n ip'
  proof (induction s tp ip rule: Increment_loop.induct)
    case (1 s tp curPtr)
    show ?case
    proof (cases "char_at s curPtr = CHR 0x00")
      case True
      with "1.prems" show ?thesis by (simp add: Increment_loop.simps)
    next
      case nz: False
      then have lt: "curPtr < length s" by (simp add: char_at_def split: if_splits)
      show ?thesis
      proof (cases "strncmp_colons s curPtr")
        case True
        then have "curPtr + 1 < length s"
          by (simp add: strncmp_colons_def char_at_def split: if_splits)
        with True nz "1.prems" show ?thesis by (simp add: Increment_loop.simps)
      next
        case False
        with nz "1.prems" have "Increment_loop s tp (curPtr + 1) = (n, ip')"
          by (simp add: Increment_loop.simps)
        from "1.IH" [OF nz False this] lt show ?thesis by auto
      qed
    qed
  qed
  obtain n ip' where il: "Increment_loop s (type_iter_ptr it) (type_iter_ptr it) = (n, ip')"
    by (cases "Increment_loop s (type_iter_ptr it) (type_iter_ptr it)")
  from bounds [OF il] 2(1) il show ?case
    by (auto simp: Increment_def IsEnd_def)
qed

definition ResolveTypeInfo :: "string \<Rightarrow> addr option \<Rightarrow> DynamicTypeSystem \<Rightarrow> addr option" where
  "ResolveTypeInfo typePath_arg baseTypeInfo w =
     ResolveTypeInfo_loop typePath_arg w (type_resolution_iterator_new typePath_arg) baseTypeInfo"

subsection \<open>Operations of the plugin registry\<close>

text \<open>
  Modelled from the spec: \<open>GetPluginSizeByRuntime\<close> of \<open>PluginFactory.h\<close>. Section 6:
  \<open>size_fixed() -> usize\<close>, "total bytes reserved for the plugin block for any instance";
  here the sum of the registered sizes.
\<close>

definition GetPluginSizeByRuntime :: "structRegistry_t \<Rightarrow> size_t" where
  "GetPluginSizeByRuntime reg = sum_list (map pluginSize reg)"

text \<open>
  Modelled from the spec: \<open>GetPluginSizeByObject\<close> of \<open>PluginFactory.h\<close>. Section 6:
  \<open>size_for_object(obj) -> usize\<close>, "identical to \<open>size_fixed\<close>".
\<close>

definition GetPluginSizeByObject :: "structRegistry_t \<Rightarrow> addr \<Rightarrow> size_t" where
  "GetPluginSizeByObject reg rtObj = sum_list (map pluginSize reg)"

text \<open>
  Modelled from the spec: \<open>RegisterPlugin\<close> of the registry. Section 6:
  \<open>register_plugin(size, key, iface) -> PluginOffset\<close>. The token is the number of bytes
  registered before the plugin (scenario S2 of the spec: the first plugin of a block lies at
  the start of the block).
\<close>

definition reg_RegisterPlugin ::
  "size_t \<Rightarrow> pluginDescriptor \<Rightarrow> pluginInterface \<Rightarrow> structRegistry_t \<Rightarrow> pluginOffset_t \<times> structRegistry_t" where
  "reg_RegisterPlugin sz desc intf reg =
     (let off = GetPluginSizeByRuntime reg
      in (off, reg @ [\<lparr> pluginSize = sz, pluginOffset = off, descriptor = desc, plugInterface = intf \<rparr>]))"

text \<open>
  Modelled from the spec: \<open>UnregisterPlugin\<close> of the registry. Section 6:
  \<open>unregister_plugin(offset)\<close> "reverses registration".
\<close>

definition reg_UnregisterPlugin :: "pluginOffset_t \<Rightarrow> structRegistry_t \<Rightarrow> structRegistry_t" where
  "reg_UnregisterPlugin off reg = filter (\<lambda>p. pluginOffset p \<noteq> off) reg"

definition plugin_inst :: "addr \<Rightarrow> regPlugin \<Rightarrow> pluginInst" where
  "plugin_inst rtObj p = (rtObj, pluginOffset p, descriptor p)"

text \<open>
  Modelled from the spec: the destructors of the given plugins, run in the order of the
  list. A destructor ends the life of the plugin struct and has no result.
\<close>

fun destroy_plugins :: "regPlugin list \<Rightarrow> addr \<Rightarrow> DynamicTypeSystem \<Rightarrow> DynamicTypeSystem" where
  "destroy_plugins [] rtObj w = w"
| "destroy_plugins (p # ps) rtObj w =
     destroy_plugins ps rtObj (w\<lparr>livePlugins := remove1 (plugin_inst rtObj p) (livePlugins w)\<rparr>)"

text \<open>
  Modelled from the spec: the loop of \<open>construct_block\<close>. Section 4.G, step 6: "the plugin
  registry constructs every registered plugin in its declared order; if any plugin fails,
  all plugins constructed so far at this level are destructed in reverse". \<open>done\<close> holds
  the plugins already constructed, the last one first.
\<close>

fun construct_plugins ::
  "regPlugin list \<Rightarrow> regPlugin list \<Rightarrow> addr \<Rightarrow> DynamicTypeSystem \<Rightarrow> bool \<times> DynamicTypeSystem" where
  "construct_plugins [] done rtObj w = (True, w)"
| "construct_plugins (p # ps) done rtObj w =
     (if OnPluginConstruct (plugInterface p) rtObj
      then construct_plugins ps (p # done) rtObj
             (w\<lparr>livePlugins := plugin_inst rtObj p # livePlugins w\<rparr>)
      else (False, destroy_plugins done rtObj w))"

text \<open>
  Modelled from the spec: \<open>ConstructPluginBlock\<close> of \<open>PluginFactory.h\<close>. Section 6:
  \<open>construct_block(obj, sys) -> bool\<close>, which "must unwind within itself on partial
  failure".
\<close>

definition ConstructPluginBlock ::
  "structRegistry_t \<Rightarrow> addr \<Rightarrow> DynamicTypeSystem \<Rightarrow> bool \<times> DynamicTypeSystem" where
  "ConstructPluginBlock reg rtObj w = construct_plugins reg [] rtObj w"

text \<open>
  Modelled from the spec: \<open>DestroyPluginBlock\<close> of \<open>PluginFactory.h\<close>. Section 6:
  \<open>destroy_block(obj, sys)\<close>; section 3: "destruction cascades plugin destructors in
  inverse construction order".
\<close>

definition DestroyPluginBlock ::
  "structRegistry_t \<Rightarrow> addr \<Rightarrow> DynamicTypeSystem \<Rightarrow> DynamicTypeSystem" where
  "DestroyPluginBlock reg rtObj w = destroy_plugins (rev reg) rtObj w"

text \<open>
  Modelled from the spec: \<open>AssignPluginBlock\<close> of \<open>PluginFactory.h\<close>. Section 6:
  \<open>assign_block(dst, src, sys) -> bool\<close>; it succeeds when the assignment of every
  registered plugin does.
\<close>

definition AssignPluginBlock :: "structRegistry_t \<Rightarrow> addr \<Rightarrow> addr \<Rightarrow> bool" where
  "AssignPluginBlock reg dstRtObj srcRtObj =
     list_all (\<lambda>p. OnPluginAssign (plugInterface p) dstRtObj srcRtObj) reg"

subsection \<open>Walking the inheritance chain\<close>

text \<open>
  The methods below recurse through \<open>inheritsFrom\<close>. The result \<open>None\<close> stands for a call
  without a result: a recursion that never ends (a cyclic chain) or the use of a pointer at
  which there is no \<open>typeInfoBase\<close> (no \<open>GenericRTTI\<close>).
\<close>

definition IsSameType :: "addr \<Rightarrow> addr \<Rightarrow> bool" where
  "IsSameType firstType secondType = (firstType = secondType)"

partial_function (option) IsTypeInheritingFromNolock ::
  "addr \<Rightarrow> addr \<Rightarrow> DynamicTypeSystem \<Rightarrow> bool option" where
  "IsTypeInheritingFromNolock baseClass subClass w =
     (if IsSameType baseClass subClass then Some True
      else case typeInfos w subClass of
             None \<Rightarrow> None
           | Some sc \<Rightarrow>
               (case inheritsFrom sc of
                  Some inheritedClass \<Rightarrow> IsTypeInheritingFromNolock baseClass inheritedClass w
                | None \<Rightarrow> Some False))"

partial_function (option) IsTypeInheritingFrom ::
  "addr \<Rightarrow> addr \<Rightarrow> DynamicTypeSystem \<Rightarrow> bool option" where
  "IsTypeInheritingFrom baseClass subClass w =
     (if IsSameType baseClass subClass then Some True
      else case typeInfos w subClass of
             None \<Rightarrow> None
           | Some sc \<Rightarrow>
               (case inheritsFrom sc of
                  Some inheritedClass \<Rightarrow> IsTypeInheritingFrom baseClass inheritedClass w
                | None \<Rightarrow> Some False))"

partial_function (option) GetTypePluginSize :: "addr \<Rightarrow> DynamicTypeSystem \<Rightarrow> size_t option" where
  "GetTypePluginSize typeInfo_arg w =
     (case typeInfos w typeInfo_arg of
        None \<Rightarrow> None
      | Some ti \<Rightarrow>
          (let sizeOut = GetPluginSizeByRuntime (structRegistry ti)
           in case inheritsFrom ti of
                Some inheritedClass \<Rightarrow>
                  Option.bind (GetTypePluginSize inheritedClass w) (\<lambda>r. Some (sizeOut + r))
              | None \<Rightarrow> Some sizeOut))"

partial_function (option) GetTypeStructPluginSize ::
  "addr \<Rightarrow> addr \<Rightarrow> DynamicTypeSystem \<Rightarrow> size_t option" where
  "GetTypeStructPluginSize typeInfo_arg object w =
     (case typeInfos w typeInfo_arg of
        None \<Rightarrow> None
      | Some ti \<Rightarrow>
          (let sizeOut = GetPluginSizeByObject (structRegistry ti) object
           in case inheritsFrom ti of
                Some inheritedClass \<Rightarrow>
                  Option.bind (GetTypeStructPluginSize inheritedClass object w)
                    (\<lambda>r. Some (sizeOut + r))
              | None \<Rightarrow> Some sizeOut))"

text \<open>
  \<open>DestructPlugins\<close>: the block of this type, then the inherited ones. The registry's
  \<open>DestroyPluginBlock\<close> does not throw in this model, so the \<open>catch\<close> with
  \<open>rtti_assert( 0 )\<close> is not reached.
\<close>

partial_function (option) DestructPlugins ::
  "addr \<Rightarrow> addr \<Rightarrow> DynamicTypeSystem \<Rightarrow> DynamicTypeSystem option" where
  "DestructPlugins typeInfo_arg rtObj w =
     (case typeInfos w typeInfo_arg of
        None \<Rightarrow> None
      | Some ti \<Rightarrow>
          (let w1 = DestroyPluginBlock (structRegistry ti) rtObj w
           in case inheritsFrom ti of
                Some inheritedClass \<Rightarrow> DestructPlugins inheritedClass rtObj w1
              | None \<Rightarrow> Some w1))"

partial_function (option) ConstructPlugins ::
  "addr \<Rightarrow> addr \<Rightarrow> DynamicTypeSystem \<Rightarrow> (bool \<times> DynamicTypeSystem) option" where
  "ConstructPlugins typeInfo_arg rtObj w =
     (case typeInfos w typeInfo_arg of
        None \<Rightarrow> None
      | Some ti \<Rightarrow>
          Option.bind
            (case inheritsFrom ti of
               Some inheritedClass \<Rightarrow> ConstructPlugins inheritedClass rtObj w
             | None \<Rightarrow> Some (True, w))
            (\<lambda>(parentConstructionSuccess, w1).
               if parentConstructionSuccess then
                 (case ConstructPluginBlock (structRegistry ti) rtObj w1 of
                    (thisConstructionSuccess, w2) \<Rightarrow>
                      if \<not> thisConstructionSuccess then
                        (case inheritsFrom ti of
                           Some inheritedClass \<Rightarrow>
                             Option.bind (DestructPlugins inheritedClass rtObj w2)
                               (\<lambda>w3. Some (False, w3))
                         | None \<Rightarrow> Some (False, w2))
                      else Some (True, w2))
               else Some (False, w1)))"

partial_function (option) AssignPlugins ::
  "addr \<Rightarrow> addr \<Rightarrow> addr \<Rightarrow> DynamicTypeSystem \<Rightarrow> bool option" where
  "AssignPlugins typeInfo_arg dstRtObj srcRtObj w =
     (case typeInfos w typeInfo_arg of
        None \<Rightarrow> None
      | Some ti \<Rightarrow>
          Option.bind
            (case inheritsFrom ti of
               Some inheritedType \<Rightarrow> AssignPlugins inheritedType dstRtObj srcRtObj w
             | None \<Rightarrow> Some True)
            (\<lambda>parentAssignmentSuccess.
               if parentAssignmentSuccess
               then Some (AssignPluginBlock (structRegistry ti) dstRtObj srcRtObj)
               else Some False))"

partial_function (option) ReferenceTypeInfo ::
  "addr \<Rightarrow> DynamicTypeSystem \<Rightarrow> DynamicTypeSystem option" where
  "ReferenceTypeInfo typeInfo_arg w =
     (case typeInfos w typeInfo_arg of
        None \<Rightarrow> None
      | Some ti \<Rightarrow>
          (let w1 = w\<lparr>typeInfos := (typeInfos w)(typeInfo_arg \<mapsto> ti\<lparr>refCount := refCount ti + 1\<rparr>)\<rparr>
           in case inheritsFrom ti of
                Some inheritedClass \<Rightarrow> ReferenceTypeInfo inheritedClass w1
              | None \<Rightarrow> Some w1))"

partial_function (option) DereferenceTypeInfo ::
  "addr \<Rightarrow> DynamicTypeSystem \<Rightarrow> DynamicTypeSystem option" where
  "DereferenceTypeInfo typeInfo_arg w =
     (case typeInfos w typeInfo_arg of
        None \<Rightarrow> None
      | Some ti \<Rightarrow>
          Option.bind
            (case inheritsFrom ti of
               Some inheritedClass \<Rightarrow> DereferenceTypeInfo inheritedClass w
             | None \<Rightarrow> Some w)
            (\<lambda>w1. case typeInfos w1 typeInfo_arg of
                    None \<Rightarrow> None
                  | Some ti1 \<Rightarrow>
                      Some (w1\<lparr>typeInfos := (typeInfos w1)(typeInfo_arg \<mapsto> ti1\<lparr>refCount := refCount ti1 - 1\<rparr>)\<rparr>)))"

subsection \<open>Object sizes\<close>

definition GetTypeInfoFromTypeStruct :: "addr \<Rightarrow> DynamicTypeSystem \<Rightarrow> addr option" where
  "GetTypeInfoFromTypeStruct rtObj w = map_option type_meta (rttiMem w rtObj)"

text \<open>\<open>GetTypeStructSize( sysPtr, typeInfo, construct_params )\<close>\<close>

definition GetTypeStructSize :: "addr \<Rightarrow> addr \<Rightarrow> DynamicTypeSystem \<Rightarrow> size_t option" where
  "GetTypeStructSize typeInfo_arg construct_params w =
     (case typeInfos w typeInfo_arg of
        None \<Rightarrow> None
      | Some ti \<Rightarrow>
          (let objMemSize = GetTypeSize (tInterface ti) construct_params
           in if objMemSize \<noteq> 0
              then Option.bind (GetTypePluginSize typeInfo_arg w)
                     (\<lambda>pluginSz. Some (objMemSize + sizeof_GenericRTTI + pluginSz))
              else Some objMemSize))"

text \<open>\<open>GetTypeStructSize( sysPtr, rtObj )\<close>, the overload for an object.\<close>

definition GetTypeStructSize_obj :: "addr \<Rightarrow> DynamicTypeSystem \<Rightarrow> size_t option" where
  "GetTypeStructSize_obj rtObj w =
     (case GetTypeInfoFromTypeStruct rtObj w of
        None \<Rightarrow> None
      | Some typeInfo_arg \<Rightarrow>
          (case typeInfos w typeInfo_arg of
             None \<Rightarrow> None
           | Some ti \<Rightarrow>
               (let langObj = GetObjectFromTypeStruct rtObj;
                    objMemSize = GetTypeSizeByObject (tInterface ti) langObj
                in if objMemSize \<noteq> 0
                   then Option.bind (GetTypeStructPluginSize typeInfo_arg rtObj w)
                          (\<lambda>pluginSz. Some (objMemSize + sizeof_GenericRTTI + pluginSz))
                   else Some objMemSize)))"

subsection \<open>Construction\<close>

text \<open>
  The result of a constructing method is the exception that leaves it (\<open>Inl\<close>) or the
  returned pointer (\<open>Inr\<close>, \<open>None\<close> for \<open>nullptr\<close>), with the memory after the call.
\<close>

definition ConstructPlacement ::
  "addr \<Rightarrow> addr \<Rightarrow> addr \<Rightarrow> DynamicTypeSystem \<Rightarrow> ((exn + addr option) \<times> DynamicTypeSystem) option" where
  "ConstructPlacement objMem typeInfo_arg construct_params w =
     Option.bind (ReferenceTypeInfo typeInfo_arg w) (\<lambda>w1.
       case typeInfos w1 typeInfo_arg of
         None \<Rightarrow> None
       | Some ti \<Rightarrow>
           (let tI = tInterface ti;
                objTypeMeta = objMem;
                w2 = w1\<lparr>rttiMem := (rttiMem w1)(objTypeMeta \<mapsto> \<lparr> type_meta = typeInfo_arg \<rparr>)\<rparr>;
                objStruct = objTypeMeta + 1 * sizeof_GenericRTTI
            in case tConstruct tI objStruct construct_params of
                 Some e \<Rightarrow>
                   \<comment> \<open>\<open>catch( ... ) { objStruct = nullptr; }\<close>, then \<open>objOut == nullptr\<close>\<close>
                   Option.bind (DereferenceTypeInfo typeInfo_arg w2) (\<lambda>w5. Some (Inr None, w5))
               | None \<Rightarrow>
                   Option.bind
                     (ConstructPlugins typeInfo_arg objTypeMeta
                        (w2\<lparr>livePayloads := objStruct # livePayloads w2\<rparr>))
                     (\<lambda>(pluginConstructSuccess, w3).
                        if pluginConstructSuccess then Some (Inr (Some objTypeMeta), w3)
                        else
                          (case tDestruct tI objStruct of
                             Some e \<Rightarrow> Some (Inl e, w3)
                           | None \<Rightarrow>
                               Option.bind
                                 (DereferenceTypeInfo typeInfo_arg
                                    (w3\<lparr>livePayloads := remove1 objStruct (livePayloads w3)\<rparr>))
                                 (\<lambda>w5. Some (Inr None, w5))))))"

definition Construct ::
  "allocatorType \<Rightarrow> addr \<Rightarrow> addr \<Rightarrow> DynamicTypeSystem \<Rightarrow> ((exn + addr option) \<times> DynamicTypeSystem) option" where
  "Construct al typeInfo_arg construct_params w =
     Option.bind (ReferenceTypeInfo typeInfo_arg w) (\<lambda>w1.
       Option.bind (GetTypeStructSize typeInfo_arg construct_params w1) (\<lambda>objMemSize.
         Option.bind
           (if objMemSize \<noteq> 0 then
              (case Allocate al objMemSize STANDARD_OBJECT_ALIGNMENT w1 of
                 (None, w2) \<Rightarrow> Some (Inr None, w2)
               | (Some objMem, w2) \<Rightarrow>
                   Option.bind (ConstructPlacement objMem typeInfo_arg construct_params w2)
                     (\<lambda>(r, w3).
                        case r of
                          Inl e \<Rightarrow> Some (Inl e, Free objMem w3)
                        | Inr objOut \<Rightarrow>
                            if objOut = None then Some (Inr None, Free objMem w3)
                            else Some (Inr objOut, w3)))
            else Some (Inr None, w1))
           (\<lambda>(r, w4).
              \<comment> \<open>\<open>DereferenceTypeInfo( typeInfo )\<close>, in the \<open>catch\<close> and after the \<open>try\<close>\<close>
              Option.bind (DereferenceTypeInfo typeInfo_arg w4) (\<lambda>w5. Some (r, w5)))))"

text \<open>
  \<open>ClonePlacement\<close>: an exception of \<open>Destruct\<close> is caught by the outer \<open>catch\<close>, which
  dereferences the type and throws again.
\<close>

definition ClonePlacement ::
  "addr \<Rightarrow> addr \<Rightarrow> DynamicTypeSystem \<Rightarrow> ((exn + addr option) \<times> DynamicTypeSystem) option" where
  "ClonePlacement objMem toBeCloned w =
     (case GetTypeInfoFromTypeStruct toBeCloned w of
        None \<Rightarrow> None
      | Some typeInfo_arg \<Rightarrow>
          Option.bind (ReferenceTypeInfo typeInfo_arg w) (\<lambda>w1.
            case typeInfos w1 typeInfo_arg of
              None \<Rightarrow> None
            | Some ti \<Rightarrow>
                (let tI = tInterface ti;
                     objTypeMeta = objMem;
                     w2 = w1\<lparr>rttiMem := (rttiMem w1)(objTypeMeta \<mapsto> \<lparr> type_meta = typeInfo_arg \<rparr>)\<rparr>;
                     objStruct = objTypeMeta + 1 * sizeof_GenericRTTI;
                     srcObjStruct = toBeCloned + 1 * sizeof_GenericRTTI
                 in case tCopyConstruct tI objStruct srcObjStruct of
                      Some e \<Rightarrow>
                        Option.bind (DereferenceTypeInfo typeInfo_arg w2) (\<lambda>w5. Some (Inr None, w5))
                    | None \<Rightarrow>
                        Option.bind
                          (ConstructPlugins typeInfo_arg objTypeMeta
                             (w2\<lparr>livePayloads := objStruct # livePayloads w2\<rparr>))
                          (\<lambda>(pluginConstructSuccess, w3).
                             Option.bind
                               (if pluginConstructSuccess
                                then AssignPlugins typeInfo_arg objTypeMeta toBeCloned w3
                                else Some False)
                               (\<lambda>pluginSuccess.
                                  if pluginSuccess then Some (Inr (Some objTypeMeta), w3)
                                  else
                                    (case tDestruct tI objStruct of
                                       Some e \<Rightarrow>
                                         Option.bind (DereferenceTypeInfo typeInfo_arg w3)
                                           (\<lambda>w5. Some (Inl e, w5))
                                     | None \<Rightarrow>
                                         Option.bind
                                           (DereferenceTypeInfo typeInfo_arg
                                              (w3\<lparr>livePayloads := remove1 objStruct (livePayloads w3)\<rparr>))
                                           (\<lambda>w5. Some (Inr None, w5))))))))"

text \<open>
  \<open>Clone\<close> has no \<open>try\<close>: an exception of \<open>ClonePlacement\<close> leaves it with the block still
  allocated. When the allocator gave \<open>nullptr\<close>, \<open>Free\<close> is called on \<open>nullptr\<close>, which is
  taken to do nothing.
\<close>

definition Clone ::
  "allocatorType \<Rightarrow> addr \<Rightarrow> DynamicTypeSystem \<Rightarrow> ((exn + addr option) \<times> DynamicTypeSystem) option" where
  "Clone al toBeCloned w =
     Option.bind (GetTypeStructSize_obj toBeCloned w) (\<lambda>objMemSize.
       if objMemSize \<noteq> 0 then
         (case Allocate al objMemSize STANDARD_OBJECT_ALIGNMENT w of
            (None, w1) \<Rightarrow> Some (Inr None, w1)
          | (Some objMem, w1) \<Rightarrow>
              Option.bind (ClonePlacement objMem toBeCloned w1)
                (\<lambda>(r, w2).
                   case r of
                     Inl e \<Rightarrow> Some (Inl e, w2)
                   | Inr objOut \<Rightarrow>
                       if objOut = None then Some (Inr None, Free objMem w2)
                       else Some (Inr objOut, w2)))
       else Some (Inr None, w))"

subsection \<open>Destruction\<close>

definition DestroyPlacement ::
  "addr \<Rightarrow> DynamicTypeSystem \<Rightarrow> ((exn + unit) \<times> DynamicTypeSystem) option" where
  "DestroyPlacement typeStruct w =
     (case GetTypeInfoFromTypeStruct typeStruct w of
        None \<Rightarrow> None
      | Some typeInfo_arg \<Rightarrow>
          (case typeInfos w typeInfo_arg of
             None \<Rightarrow> None
           | Some ti \<Rightarrow>
               Option.bind (DestructPlugins typeInfo_arg typeStruct w) (\<lambda>w1.
                 let langObj = typeStruct + 1 * sizeof_GenericRTTI
                 in case tDestruct (tInterface ti) langObj of
                      Some e \<Rightarrow> Some (rtti_assert False, w1)
                    | None \<Rightarrow>
                        Option.bind
                          (DereferenceTypeInfo typeInfo_arg
                             (w1\<lparr>livePayloads := remove1 langObj (livePayloads w1)\<rparr>))
                          (\<lambda>w2. Some (Inr (), w2)))))"

definition Destroy ::
  "addr \<Rightarrow> DynamicTypeSystem \<Rightarrow> ((exn + unit) \<times> DynamicTypeSystem) option" where
  "Destroy typeStruct w =
     Option.bind (DestroyPlacement typeStruct w) (\<lambda>(r, w1).
       case r of
         Inl e \<Rightarrow> Some (Inl e, w1)
       | Inr u \<Rightarrow> Some (Inr (), Free typeStruct w1))"

subsection \<open>Plugin registration\<close>

definition RegisterPlugin ::
  "size_t \<Rightarrow> pluginDescriptor \<Rightarrow> pluginInterface \<Rightarrow> DynamicTypeSystem
     \<Rightarrow> ((exn + pluginOffset_t) \<times> DynamicTypeSystem) option" where
  "RegisterPlugin pluginSize_arg descriptor_arg plugInterface_arg w =
     (case typeInfo descriptor_arg of
        None \<Rightarrow> None
      | Some t \<Rightarrow>
          (case typeInfos w t of
             None \<Rightarrow> None
           | Some ti \<Rightarrow>
               (case rtti_assert (IsImmutable ti = False) of
                  Inl e \<Rightarrow> Some (Inl e, w)
                | Inr u \<Rightarrow>
                    (case reg_RegisterPlugin pluginSize_arg descriptor_arg plugInterface_arg
                            (structRegistry ti) of
                       (off, reg) \<Rightarrow>
                         Some (Inr off, w\<lparr>typeInfos := (typeInfos w)(t \<mapsto> ti\<lparr>structRegistry := reg\<rparr>)\<rparr>)))))"

definition UnregisterPlugin ::
  "addr \<Rightarrow> pluginOffset_t \<Rightarrow> DynamicTypeSystem \<Rightarrow> ((exn + unit) \<times> DynamicTypeSystem) option" where
  "UnregisterPlugin typeInfo_arg pluginOffset_arg w =
     (case typeInfos w typeInfo_arg of
        None \<Rightarrow> None
      | Some ti \<Rightarrow>
          (case rtti_assert (IsImmutable ti = False) of
             Inl e \<Rightarrow> Some (Inl e, w)
           | Inr u \<Rightarrow>
               Some (Inr (),
                     w\<lparr>typeInfos := (typeInfos w)(typeInfo_arg \<mapsto>
                          ti\<lparr>structRegistry := reg_UnregisterPlugin pluginOffset_arg (structRegistry ti)\<rparr>)\<rparr>)))"

subsection \<open>Inheritance and type registration\<close>

text \<open>
  \<open>SetTypeInfoInheritingClass\<close>. The three updates at its end are written with
  \<open>add_inheritanceCount\<close> and \<open>set_inheritsFrom\<close>, which change one member of the struct at
  a pointer.
\<close>

definition add_inheritanceCount :: "addr \<Rightarrow> ulong \<Rightarrow> DynamicTypeSystem \<Rightarrow> DynamicTypeSystem option" where
  "add_inheritanceCount p d w =
     (case typeInfos w p of
        None \<Rightarrow> None
      | Some ti \<Rightarrow>
          Some (w\<lparr>typeInfos := (typeInfos w)(p \<mapsto> ti\<lparr>inheritanceCount := inheritanceCount ti + d\<rparr>)\<rparr>))"

definition set_inheritsFrom :: "addr \<Rightarrow> addr option \<Rightarrow> DynamicTypeSystem \<Rightarrow> DynamicTypeSystem option" where
  "set_inheritsFrom p v w =
     (case typeInfos w p of
        None \<Rightarrow> None
      | Some ti \<Rightarrow> Some (w\<lparr>typeInfos := (typeInfos w)(p \<mapsto> ti\<lparr>inheritsFrom := v\<rparr>)\<rparr>))"

definition SetTypeInfoInheritingClass ::
  "addr \<Rightarrow> addr option \<Rightarrow> DynamicTypeSystem \<Rightarrow> ((exn + unit) \<times> DynamicTypeSystem) option" where
  "SetTypeInfoInheritingClass subClass inheritedClass w =
     (case typeInfos w subClass of
        None \<Rightarrow> None
      | Some sc \<Rightarrow>
          (let subClassImmutability = IsImmutable sc
           in case rtti_assert (subClassImmutability = False) of
                Inl e \<Rightarrow> Some (Inl e, w)
              | Inr u \<Rightarrow>
                  if subClassImmutability = False then
                    (let alreadyExisting =
                           (if inheritedClass \<noteq> None
                            then FindTypeInfoNolock (name sc) inheritedClass w else None)
                     in if inheritedClass \<noteq> None \<and> alreadyExisting \<noteq> None
                           \<and> alreadyExisting \<noteq> Some subClass
                        then Some (Inl type_name_conflict_exception, w)
                        else
                          (let prevInherit = inheritsFrom sc
                           in if prevInherit \<noteq> inheritedClass then
                                Option.bind
                                  (case inheritedClass of
                                     Some ic \<Rightarrow>
                                       Option.bind (IsTypeInheritingFromNolock subClass ic w)
                                         (\<lambda>b. Some (rtti_assert (b = False)))
                                   | None \<Rightarrow> Some (Inr ()))
                                  (\<lambda>a. case a of
                                          Inl e \<Rightarrow> Some (Inl e, w)
                                        | Inr u \<Rightarrow>
                                            Option.bind
                                              (case prevInherit of
                                                 Some pi \<Rightarrow> add_inheritanceCount pi (- 1) w
                                               | None \<Rightarrow> Some w)
                                              (\<lambda>w1. Option.bind (set_inheritsFrom subClass inheritedClass w1)
                                                (\<lambda>w2. Option.bind
                                                   (case inheritedClass of
                                                      Some ic \<Rightarrow> add_inheritanceCount ic 1 w2
                                                    | None \<Rightarrow> Some w2)
                                                   (\<lambda>w3. Some (Inr (), w3)))))
                              else Some (Inr (), w)))
                  else Some (Inr (), w)))"

text \<open>
  \<open>SetupTypeInfoBase\<close>. \<open>LIST_INSERT( registeredTypes.root, tInfo->node )\<close> links the node
  behind the root, that is at the front of the list (\<open>rwlist.hpp\<close> is not among the
  sources; no property below depends on the position). The plugin registry of the new
  struct is the empty one its constructor made.
\<close>

definition SetupTypeInfoBase ::
  "addr \<Rightarrow> string \<Rightarrow> typeInterface \<Rightarrow> addr option \<Rightarrow> DynamicTypeSystem
     \<Rightarrow> ((exn + unit) \<times> DynamicTypeSystem) option" where
  "SetupTypeInfoBase tInfo typeName tInterface_arg inheritsFrom_arg w =
     (let alreadyExisting = FindTypeInfoNolock typeName inheritsFrom_arg w
      in if alreadyExisting \<noteq> None then Some (Inl type_name_conflict_exception, w)
         else
           (let w1 = w\<lparr>typeInfos := (typeInfos w)(tInfo \<mapsto>
                          \<lparr> name = typeName, tInterface = tInterface_arg, refCount = 0,
                            inheritanceCount = 0, isExclusive = False, isAbstract = False,
                            inheritsFrom = None, structRegistry = [] \<rparr>),
                        registeredTypes := tInfo # registeredTypes w\<rparr>
            in Option.bind (SetTypeInfoInheritingClass tInfo inheritsFrom_arg w1)
                 (\<lambda>(r, w2).
                    case r of
                      Inl e \<Rightarrow> Some (Inl e, w2\<lparr>registeredTypes := remove1 tInfo (registeredTypes w2)\<rparr>)
                    | Inr u \<Rightarrow> Some (Inr (), w2))))"

text \<open>
  Modelled from the spec: \<open>eir::static_new_struct\<close> of \<open>eirutils.h\<close>, which is not among
  the sources. Section 4.C: \<open>register_type\<close> "allocates a descriptor"; section 4.B: all
  allocations go through the allocator adapter. The result is \<open>nullptr\<close> when the allocator
  gives none (the header tests for it). The size and alignment of the descriptor struct
  are those of the platform and are arguments here.
\<close>

definition static_new_struct ::
  "allocatorType \<Rightarrow> size_t \<times> size_t \<Rightarrow> DynamicTypeSystem \<Rightarrow> addr option \<times> DynamicTypeSystem" where
  "static_new_struct al layout w = Allocate al (fst layout) (snd layout) w"

text \<open>
  Modelled from the spec: \<open>eir::static_del_struct\<close> of \<open>eirutils.h\<close>. Section 4.C: "the
  partially-built descriptor is freed"; the struct is destroyed and its memory given back
  to the allocator.
\<close>

definition static_del_struct :: "addr \<Rightarrow> DynamicTypeSystem \<Rightarrow> DynamicTypeSystem" where
  "static_del_struct p w = Free p (w\<lparr>typeInfos := (typeInfos w)(p := None)\<rparr>)"


definition RegisterCommonTypeInterface ::
  "allocatorType \<Rightarrow> size_t \<times> size_t \<Rightarrow> string \<Rightarrow> addr option \<Rightarrow> typeInterface \<Rightarrow> DynamicTypeSystem
     \<Rightarrow> ((exn + addr option) \<times> DynamicTypeSystem) option" where
  "RegisterCommonTypeInterface al layout typeName inheritsFrom_arg tInterface_arg w =
     (case static_new_struct al layout w of
        (None, w1) \<Rightarrow> Some (Inr None, w1)
      | (Some tInfo, w1) \<Rightarrow>
          Option.bind (SetupTypeInfoBase tInfo typeName tInterface_arg inheritsFrom_arg w1)
            (\<lambda>(r, w2).
               case r of
                 Inl e \<Rightarrow> Some (Inl e, static_del_struct tInfo w2)
               | Inr u \<Rightarrow> Some (Inr (Some tInfo), w2)))"

text \<open>The \<open>structTypeInterface\<close> of \<open>RegisterAbstractType\<close>, for a struct of the given size.\<close>

definition abstract_structTypeInterface :: "size_t \<Rightarrow> typeInterface" where
  "abstract_structTypeInterface sizeof_structType =
     \<lparr> tConstruct = (\<lambda>mem construct_params. Some abstraction_construction_exception),
       tCopyConstruct = (\<lambda>mem srcMem. Some abstraction_construction_exception),
       tDestruct = (\<lambda>mem. None),
       GetTypeSize = (\<lambda>construct_params. sizeof_structType),
       GetTypeSizeByObject = (\<lambda>langObj. 0) \<rparr>"

definition RegisterAbstractType ::
  "allocatorType \<Rightarrow> size_t \<times> size_t \<Rightarrow> size_t \<Rightarrow> string \<Rightarrow> addr option \<Rightarrow> DynamicTypeSystem
     \<Rightarrow> ((exn + addr option) \<times> DynamicTypeSystem) option" where
  "RegisterAbstractType al layout sizeof_structType typeName inheritsFrom_arg w =
     Option.bind
       (RegisterCommonTypeInterface al layout typeName inheritsFrom_arg
          (abstract_structTypeInterface sizeof_structType) w)
       (\<lambda>(r, w1).
          case r of
            Inr (Some newTypeInfo) \<Rightarrow>
              (case typeInfos w1 newTypeInfo of
                 None \<Rightarrow> None
               | Some ti \<Rightarrow>
                   Some (r, w1\<lparr>typeInfos := (typeInfos w1)(newTypeInfo \<mapsto> ti\<lparr>isAbstract := True\<rparr>)\<rparr>))
          | _ \<Rightarrow> Some (r, w1))"

subsection \<open>The type iterator\<close>







subsection \<open>Inheritance chains\<close>

text \<open>
  \<open>inheritance_chain m t cs\<close>: in the descriptor memory \<open>m\<close>, \<open>cs\<close> is the chain of \<open>t\<close>,
  from \<open>t\<close> itself through \<open>inheritsFrom\<close> to a root. A descriptor has such a chain exactly
  when the recursions through \<open>inheritsFrom\<close> end.
\<close>

fun inheritance_chain :: "(addr \<rightharpoonup> typeInfoBase) \<Rightarrow> addr \<Rightarrow> addr list \<Rightarrow> bool" where
  "inheritance_chain m t [] = False"
| "inheritance_chain m t (c # cs) =
     (c = t \<and>
      (case m t of
         None \<Rightarrow> False
       | Some ti \<Rightarrow>
           (case inheritsFrom ti of
              None \<Rightarrow> cs = []
            | Some p \<Rightarrow> inheritance_chain m p cs)))"

text \<open>The size of the plugin block of the descriptor at \<open>c\<close>.\<close>

definition plugin_block_size :: "(addr \<rightharpoonup> typeInfoBase) \<Rightarrow> addr \<Rightarrow> size_t" where
  "plugin_block_size m c =
     (case m c of None \<Rightarrow> 0 | Some ti \<Rightarrow> GetPluginSizeByRuntime (structRegistry ti))"

text \<open>The descriptor memory with \<open>f\<close> applied to the \<open>refCount\<close> of the descriptors of \<open>cs\<close>.\<close>

definition adjust_refCount ::
  "(ulong \<Rightarrow> ulong) \<Rightarrow> addr list \<Rightarrow> (addr \<rightharpoonup> typeInfoBase) \<Rightarrow> (addr \<rightharpoonup> typeInfoBase)" where
  "adjust_refCount f cs m =
     (\<lambda>a. if a \<in> set cs then map_option (\<lambda>ti. ti\<lparr>refCount := f (refCount ti)\<rparr>) (m a) else m a)"

text \<open>
  The plugin structs of an object over a chain, the one constructed last first; whether
  every plugin constructor (every plugin assignment) of the chain succeeds.
\<close>

definition block_insts :: "(addr \<rightharpoonup> typeInfoBase) \<Rightarrow> addr \<Rightarrow> addr \<Rightarrow> pluginInst list" where
  "block_insts m rtObj c =
     (case m c of None \<Rightarrow> [] | Some ti \<Rightarrow> rev (map (plugin_inst rtObj) (structRegistry ti)))"

definition chain_insts :: "(addr \<rightharpoonup> typeInfoBase) \<Rightarrow> addr \<Rightarrow> addr list \<Rightarrow> pluginInst list" where
  "chain_insts m rtObj cs = concat (map (block_insts m rtObj) cs)"

definition block_constructs :: "(addr \<rightharpoonup> typeInfoBase) \<Rightarrow> addr \<Rightarrow> addr \<Rightarrow> bool" where
  "block_constructs m rtObj c =
     (case m c of
        None \<Rightarrow> False
      | Some ti \<Rightarrow> list_all (\<lambda>p. OnPluginConstruct (plugInterface p) rtObj) (structRegistry ti))"

definition block_assigns :: "(addr \<rightharpoonup> typeInfoBase) \<Rightarrow> addr \<Rightarrow> addr \<Rightarrow> addr \<Rightarrow> bool" where
  "block_assigns m dstRtObj srcRtObj c =
     (case m c of
        None \<Rightarrow> False
      | Some ti \<Rightarrow> AssignPluginBlock (structRegistry ti) dstRtObj srcRtObj)"

subsection \<open>Closed forms of the constructing methods\<close>

text \<open>
  What \<open>ConstructPlacement\<close> and \<open>Construct\<close> give for a descriptor with the chain
  \<open>cs\<close>, written without recursion: \<open>placement_result\<close> for \<open>ConstructPlacement\<close> (its
  argument \<open>constructed\<close> is the outcome of the payload constructor), \<open>struct_size\<close> for
  \<open>GetTypeStructSize\<close> and \<open>construct_result\<close> for \<open>Construct\<close>. They are proved equal
  to the methods below and serve the proofs only.
\<close>

definition placement_result ::
  "addr \<Rightarrow> addr \<Rightarrow> addr list \<Rightarrow> typeInterface \<Rightarrow> exn option \<Rightarrow> DynamicTypeSystem
     \<Rightarrow> (exn + addr option) \<times> DynamicTypeSystem" where
  "placement_result objMem t cs tI constructed w =
     (let R = (rttiMem w)(objMem \<mapsto> \<lparr> type_meta = t \<rparr>);
          objStruct = objMem + 1 * sizeof_GenericRTTI
      in case constructed of
           Some e \<Rightarrow> (Inr None, w\<lparr>rttiMem := R\<rparr>)
         | None \<Rightarrow>
             if list_all (block_constructs (typeInfos w) objMem) cs
             then (Inr (Some objMem),
                   w\<lparr>typeInfos := adjust_refCount (\<lambda>r. r + 1) cs (typeInfos w), rttiMem := R,
                     livePayloads := objStruct # livePayloads w,
                     livePlugins := chain_insts (typeInfos w) objMem cs @ livePlugins w\<rparr>)
             else (case tDestruct tI objStruct of
                     Some e \<Rightarrow>
                       (Inl e, w\<lparr>typeInfos := adjust_refCount (\<lambda>r. r + 1) cs (typeInfos w),
                                 rttiMem := R, livePayloads := objStruct # livePayloads w\<rparr>)
                   | None \<Rightarrow> (Inr None, w\<lparr>rttiMem := R\<rparr>)))"

definition struct_size :: "addr list \<Rightarrow> typeInterface \<Rightarrow> addr \<Rightarrow> DynamicTypeSystem \<Rightarrow> size_t" where
  "struct_size cs tI p w =
     (if GetTypeSize tI p \<noteq> 0
      then GetTypeSize tI p + sizeof_GenericRTTI + sum_list (map (plugin_block_size (typeInfos w)) cs)
      else GetTypeSize tI p)"

definition construct_result ::
  "allocatorType \<Rightarrow> addr \<Rightarrow> addr list \<Rightarrow> typeInterface \<Rightarrow> addr \<Rightarrow> DynamicTypeSystem
     \<Rightarrow> (exn + addr option) \<times> DynamicTypeSystem" where
  "construct_result al t cs tI p w =
     (if struct_size cs tI p w = 0 then (Inr None, w)
      else case al (struct_size cs tI p w) STANDARD_OBJECT_ALIGNMENT (allocated w) of
             None \<Rightarrow> (Inr None, w)
           | Some objMem \<Rightarrow>
               (case placement_result objMem t cs tI
                       (tConstruct tI (objMem + 1 * sizeof_GenericRTTI) p) w of
                  (Inr (Some obj), w') \<Rightarrow> (Inr (Some obj), w'\<lparr>allocated := objMem # allocated w\<rparr>)
                | (r, w') \<Rightarrow> (r, w')))"

subsection \<open>The type interface of RegisterStructType\<close>

text \<open>
  The \<open>structTypeInterface\<close> of \<open>RegisterStructType\<close>: construction and copy construction
  are those of the registered struct (\<open>try_copy_construct\<close> throws
  \<open>undefined_method_exception\<close> for a struct without copy constructor), the destructor is
  \<open>noexcept\<close>, both sizes are \<open>structSize\<close>.
\<close>

definition structTypeInterface ::
  "(addr \<Rightarrow> addr \<Rightarrow> exn option) \<Rightarrow> (addr \<Rightarrow> addr \<Rightarrow> exn option) \<Rightarrow> size_t \<Rightarrow> typeInterface" where
  "structTypeInterface ctor copy_ctor structSize =
     \<lparr> tConstruct = ctor, tCopyConstruct = copy_ctor, tDestruct = (\<lambda>mem. None),
       GetTypeSize = (\<lambda>construct_params. structSize),
       GetTypeSizeByObject = (\<lambda>langObj. structSize) \<rparr>"

definition RegisterStructType ::
  "allocatorType \<Rightarrow> size_t \<times> size_t \<Rightarrow> (addr \<Rightarrow> addr \<Rightarrow> exn option) \<Rightarrow> (addr \<Rightarrow> addr \<Rightarrow> exn option)
     \<Rightarrow> string \<Rightarrow> addr option \<Rightarrow> size_t \<Rightarrow> DynamicTypeSystem
     \<Rightarrow> ((exn + addr option) \<times> DynamicTypeSystem) option" where
  "RegisterStructType al layout ctor copy_ctor typeName inheritsFrom_arg structSize w =
     RegisterCommonTypeInterface al layout typeName inheritsFrom_arg
       (structTypeInterface ctor copy_ctor structSize) w"

subsection \<open>Example systems\<close>

text \<open>
  Concrete systems on which the theorems below are instantiated. \<open>example_alloc\<close> hands out
  a new address for every block in use, \<open>exhausted_alloc\<close> has no memory left. \<open>abc_sys\<close> holds the chain \<open>A \<leftarrow> B \<leftarrow> C\<close> (\<open>A\<close>
  and \<open>B\<close> with one plugin of four bytes each) and a type \<open>Z\<close> whose payload size is zero;
  \<open>x_sys\<close> holds a type whose second plugin fails to construct; \<open>shape_sys\<close> is the system
  after registering the abstract type \<open>Shape\<close>, \<open>t_sys\<close> the one after registering \<open>T\<close>;
  \<open>busy_sys\<close> holds a type with one live instance, \<open>idle_sys\<close> the same type without;
  \<open>y_sys\<close> holds a type with a plugin whose assignment fails, \<open>y_obj_sys\<close> is that system
  with one instance at \<open>0x1100\<close>.
\<close>

definition example_alloc :: allocatorType where
  "example_alloc memSize alignment live = Some (0x1000 + 0x100 * of_nat (length live))"


definition plain_struct :: "size_t \<Rightarrow> typeInterface" where
  "plain_struct structSize = structTypeInterface (\<lambda>mem p. None) (\<lambda>mem src. None) structSize"

definition ok_plugin :: pluginInterface where
  "ok_plugin = \<lparr> OnPluginConstruct = (\<lambda>obj. True), OnPluginAssign = (\<lambda>dst src. True) \<rparr>"

definition failing_plugin :: pluginInterface where
  "failing_plugin = \<lparr> OnPluginConstruct = (\<lambda>obj. False), OnPluginAssign = (\<lambda>dst src. True) \<rparr>"

definition unassignable_plugin :: pluginInterface where
  "unassignable_plugin = \<lparr> OnPluginConstruct = (\<lambda>obj. True), OnPluginAssign = (\<lambda>dst src. False) \<rparr>"

definition empty_sys :: DynamicTypeSystem where
  "empty_sys = \<lparr> typeInfos = Map.empty, registeredTypes = [], rttiMem = Map.empty,
      allocated = [], livePayloads = [], livePlugins = [] \<rparr>"

definition type_A :: typeInfoBase where
  "type_A = \<lparr> name = ''A'', tInterface = plain_struct 8, refCount = 0, inheritanceCount = 1,
      isExclusive = False, isAbstract = False, inheritsFrom = None,
      structRegistry = [\<lparr> pluginSize = 4, pluginOffset = 0,
                          descriptor = \<lparr> pluginId = 1, typeInfo = Some 0x100 \<rparr>,
                          plugInterface = ok_plugin \<rparr>] \<rparr>"

definition type_B :: typeInfoBase where
  "type_B = \<lparr> name = ''B'', tInterface = plain_struct 8, refCount = 0, inheritanceCount = 1,
      isExclusive = False, isAbstract = False, inheritsFrom = Some 0x100,
      structRegistry = [\<lparr> pluginSize = 4, pluginOffset = 0,
                          descriptor = \<lparr> pluginId = 2, typeInfo = Some 0x200 \<rparr>,
                          plugInterface = ok_plugin \<rparr>] \<rparr>"

definition type_C :: typeInfoBase where
  "type_C = \<lparr> name = ''C'', tInterface = plain_struct 8, refCount = 0, inheritanceCount = 0,
      isExclusive = False, isAbstract = False, inheritsFrom = Some 0x200,
      structRegistry = [] \<rparr>"

definition type_Z :: typeInfoBase where
  "type_Z = \<lparr> name = ''Z'', tInterface = plain_struct 0, refCount = 0, inheritanceCount = 0,
      isExclusive = False, isAbstract = False, inheritsFrom = None,
      structRegistry = [] \<rparr>"

definition abc_sys :: DynamicTypeSystem where
  "abc_sys = \<lparr> typeInfos = [0x100 \<mapsto> type_A, 0x200 \<mapsto> type_B, 0x300 \<mapsto> type_C, 0x400 \<mapsto> type_Z],
      registeredTypes = [0x400, 0x300, 0x200, 0x100], rttiMem = Map.empty,
      allocated = [0x400, 0x300, 0x200, 0x100], livePayloads = [], livePlugins = [] \<rparr>"

definition type_X :: typeInfoBase where
  "type_X = \<lparr> name = ''X'', tInterface = plain_struct 8, refCount = 0, inheritanceCount = 0,
      isExclusive = False, isAbstract = False, inheritsFrom = None,
      structRegistry = [\<lparr> pluginSize = 4, pluginOffset = 0,
                          descriptor = \<lparr> pluginId = 1, typeInfo = Some 0x100 \<rparr>,
                          plugInterface = ok_plugin \<rparr>,
                        \<lparr> pluginSize = 4, pluginOffset = 4,
                          descriptor = \<lparr> pluginId = 2, typeInfo = Some 0x100 \<rparr>,
                          plugInterface = failing_plugin \<rparr>] \<rparr>"

definition x_sys :: DynamicTypeSystem where
  "x_sys = \<lparr> typeInfos = [0x100 \<mapsto> type_X], registeredTypes = [0x100], rttiMem = Map.empty,
      allocated = [0x100], livePayloads = [], livePlugins = [] \<rparr>"

definition type_Shape :: typeInfoBase where
  "type_Shape = \<lparr> name = ''Shape'', tInterface = abstract_structTypeInterface 16, refCount = 0,
      inheritanceCount = 0, isExclusive = False, isAbstract = True, inheritsFrom = None,
      structRegistry = [] \<rparr>"

definition shape_sys :: DynamicTypeSystem where
  "shape_sys = \<lparr> typeInfos = [0x1000 \<mapsto> type_Shape], registeredTypes = [0x1000],
      rttiMem = Map.empty, allocated = [0x1000], livePayloads = [], livePlugins = [] \<rparr>"

definition type_T :: typeInfoBase where
  "type_T = \<lparr> name = ''T'', tInterface = plain_struct 8, refCount = 0, inheritanceCount = 0,
      isExclusive = False, isAbstract = False, inheritsFrom = None, structRegistry = [] \<rparr>"


definition busy_sys :: DynamicTypeSystem where
  "busy_sys = \<lparr> typeInfos = [0x100 \<mapsto> type_T\<lparr>refCount := 1\<rparr>], registeredTypes = [0x100],
      rttiMem = [0x1100 \<mapsto> \<lparr> type_meta = 0x100 \<rparr>], allocated = [0x1100, 0x100],
      livePayloads = [0x1108], livePlugins = [] \<rparr>"

definition idle_sys :: DynamicTypeSystem where
  "idle_sys = \<lparr> typeInfos = [0x100 \<mapsto> type_T], registeredTypes = [0x100],
      rttiMem = Map.empty, allocated = [0x100], livePayloads = [], livePlugins = [] \<rparr>"

definition type_Y :: typeInfoBase where
  "type_Y = \<lparr> name = ''Y'', tInterface = plain_struct 8, refCount = 0, inheritanceCount = 0,
      isExclusive = False, isAbstract = False, inheritsFrom = None,
      structRegistry = [\<lparr> pluginSize = 4, pluginOffset = 0,
                          descriptor = \<lparr> pluginId = 1, typeInfo = Some 0x100 \<rparr>,
                          plugInterface = unassignable_plugin \<rparr>] \<rparr>"

definition y_sys :: DynamicTypeSystem where
  "y_sys = \<lparr> typeInfos = [0x100 \<mapsto> type_Y], registeredTypes = [0x100], rttiMem = Map.empty,
      allocated = [0x100], livePayloads = [], livePlugins = [] \<rparr>"

definition y_obj_sys :: DynamicTypeSystem where
  "y_obj_sys = \<lparr> typeInfos = [0x100 \<mapsto> type_Y\<lparr>refCount := 1\<rparr>], registeredTypes = [0x100],
      rttiMem = [0x1100 \<mapsto> \<lparr> type_meta = 0x100 \<rparr>], allocated = [0x1100, 0x100],
      livePayloads = [0x1108],
      livePlugins = [(0x1100, 0, \<lparr> pluginId = 1, typeInfo = Some 0x100 \<rparr>)] \<rparr>"

section \<open>Properties of the chain walks\<close>

lemma inheritance_chain_hd: "inheritance_chain m t cs \<Longrightarrow> \<exists>cs'. cs = t # cs'"
  by (cases cs) auto

lemma inheritance_chain_unique:
  "inheritance_chain m t xs \<Longrightarrow> inheritance_chain m t ys \<Longrightarrow> xs = ys"
proof (induction xs arbitrary: t ys)
  case Nil
  then show ?case by simp
next
  case (Cons x xs)
  then obtain y ys' where ys: "ys = y # ys'" by (cases ys) auto
  from Cons.prems ys show ?case
    by (auto split: option.splits dest: Cons.IH)
qed

lemma inheritance_chain_suffix:
  "inheritance_chain m t cs \<Longrightarrow> a \<in> set cs \<Longrightarrow>
     \<exists>ys zs. cs = ys @ zs \<and> inheritance_chain m a zs"
proof (induction cs arbitrary: t)
  case Nil
  then show ?case by simp
next
  case (Cons c cs)
  show ?case
  proof (cases "a = c")
    case True
    with Cons.prems(1) have "inheritance_chain m a (c # cs)" by simp
    then show ?thesis by (metis append_Nil)
  next
    case False
    with Cons.prems(2) have mem: "a \<in> set cs" by simp
    then have "cs \<noteq> []" by auto
    with Cons.prems(1) obtain ti p where "m t = Some ti" "inheritsFrom ti = Some p"
        "inheritance_chain m p cs"
      by (auto split: option.splits)
    from Cons.IH [OF this(3) mem] obtain ys zs where "cs = ys @ zs" "inheritance_chain m a zs"
      by blast
    then have "c # cs = (c # ys) @ zs" by simp
    with \<open>inheritance_chain m a zs\<close> show ?thesis by blast
  qed
qed

lemma inheritance_chain_distinct: "inheritance_chain m t cs \<Longrightarrow> distinct cs"
proof (induction cs arbitrary: t)
  case Nil
  then show ?case by simp
next
  case (Cons c cs)
  have ct: "c = t" using Cons.prems by simp
  have tl_distinct: "distinct cs"
  proof (cases cs)
    case Nil
    then show ?thesis by simp
  next
    case (Cons d ds)
    with Cons.prems obtain ti p where "m t = Some ti" "inheritsFrom ti = Some p"
        "inheritance_chain m p cs"
      by (auto split: option.splits)
    then show ?thesis using Cons.IH by blast
  qed
  have "c \<notin> set cs"
  proof
    assume "c \<in> set cs"
    then have "c \<in> set (c # cs)" by simp
    from \<open>c \<in> set cs\<close> obtain i where i: "i < length cs" "cs ! i = c"
      by (auto simp: in_set_conv_nth)
    have "\<exists>ys zs. cs = ys @ zs \<and> inheritance_chain m c zs"
    proof (cases cs)
      case Nil
      with \<open>c \<in> set cs\<close> show ?thesis by simp
    next
      case (Cons d ds)
      with Cons.prems ct obtain ti p where "m t = Some ti" "inheritsFrom ti = Some p"
          "inheritance_chain m p cs"
        by (auto split: option.splits)
      from inheritance_chain_suffix [OF this(3) \<open>c \<in> set cs\<close>] show ?thesis .
    qed
    then obtain ys zs where yz: "cs = ys @ zs" "inheritance_chain m c zs" by blast
    from inheritance_chain_unique [OF yz(2)] Cons.prems ct have "zs = c # cs" by simp
    with yz(1) have "length cs = length ys + Suc (length cs)" by (metis length_append length_Cons)
    then show False by simp
  qed
  with tl_distinct show ?case by simp
qed

lemma inheritance_chain_frame:
  "(\<And>a. map_option inheritsFrom (m' a) = map_option inheritsFrom (m a)) \<Longrightarrow>
   inheritance_chain m' t cs = inheritance_chain m t cs"
proof (induction cs arbitrary: t)
  case Nil
  then show ?case by simp
next
  case (Cons c cs)
  have eq: "map_option inheritsFrom (m' t) = map_option inheritsFrom (m t)" by (rule Cons.prems)
  show ?case
  proof (cases "m t")
    case None
    with eq show ?thesis by simp
  next
    case (Some ti)
    with eq obtain ti' where ti': "m' t = Some ti'" "inheritsFrom ti' = inheritsFrom ti" by auto
    with Some Cons.IH [OF Cons.prems] show ?thesis by (simp split: option.splits)
  qed
qed

lemma inheritance_chain_adjust [simp]:
  "inheritance_chain (adjust_refCount f xs m) t cs = inheritance_chain m t cs"
  by (rule inheritance_chain_frame) (simp add: adjust_refCount_def option.map_comp comp_def)


lemma GetTypePluginSize_chain:
  "inheritance_chain (typeInfos w) t cs \<Longrightarrow>
   GetTypePluginSize t w = Some (sum_list (map (plugin_block_size (typeInfos w)) cs))"
proof (induction cs arbitrary: t)
  case Nil
  then show ?case by simp
next
  case (Cons c cs)
  then obtain ti where ti: "c = t" "typeInfos w t = Some ti" by (auto split: option.splits)
  have blk: "plugin_block_size (typeInfos w) t = GetPluginSizeByRuntime (structRegistry ti)"
    using ti by (simp add: plugin_block_size_def)
  show ?case
  proof (cases "inheritsFrom ti")
    case None
    with Cons.prems ti blk show ?thesis
      by (subst GetTypePluginSize.simps) simp
  next
    case (Some p)
    with Cons.prems ti have "inheritance_chain (typeInfos w) p cs" by simp
    from Cons.IH [OF this] Some ti blk show ?thesis
      by (subst GetTypePluginSize.simps) simp
  qed
qed

lemma ReferenceTypeInfo_chain:
  "inheritance_chain (typeInfos w) t cs \<Longrightarrow>
   ReferenceTypeInfo t w = Some (w\<lparr>typeInfos := adjust_refCount (\<lambda>r. r + 1) cs (typeInfos w)\<rparr>)"
proof (induction cs arbitrary: t w)
  case Nil
  then show ?case by simp
next
  case (Cons c cs)
  then obtain ti where ti: "c = t" "typeInfos w t = Some ti" by (auto split: option.splits)
  have dist: "t \<notin> set cs" using inheritance_chain_distinct [OF Cons.prems] ti by simp
  let ?w1 = "w\<lparr>typeInfos := (typeInfos w)(t \<mapsto> ti\<lparr>refCount := refCount ti + 1\<rparr>)\<rparr>"
  have upd: "(typeInfos w)(t \<mapsto> ti\<lparr>refCount := refCount ti + 1\<rparr>) = adjust_refCount (\<lambda>r. r + 1) [t] (typeInfos w)"
    using ti by (auto simp: adjust_refCount_def)
  show ?case
  proof (cases "inheritsFrom ti")
    case None
    with Cons.prems ti have "cs = []" by simp
    with None ti upd show ?thesis
      by (subst ReferenceTypeInfo.simps) simp
  next
    case (Some p)
    with Cons.prems ti have "inheritance_chain (typeInfos w) p cs" by simp
    then have "inheritance_chain (typeInfos ?w1) p cs" by (simp add: upd)
    from Cons.IH [OF this]
    have "ReferenceTypeInfo p ?w1 =
            Some (w\<lparr>typeInfos := adjust_refCount (\<lambda>r. r + 1) cs (adjust_refCount (\<lambda>r. r + 1) [t] (typeInfos w))\<rparr>)"
      by (simp add: upd)
    moreover have "adjust_refCount (\<lambda>r. r + 1) cs (adjust_refCount (\<lambda>r. r + 1) [t] (typeInfos w))
        = adjust_refCount (\<lambda>r. r + 1) (t # cs) (typeInfos w)"
      using dist by (auto simp: adjust_refCount_def)
    ultimately show ?thesis using Some ti
      by (subst ReferenceTypeInfo.simps) simp
  qed
qed

lemma DereferenceTypeInfo_chain:
  "inheritance_chain (typeInfos w) t cs \<Longrightarrow>
   DereferenceTypeInfo t w = Some (w\<lparr>typeInfos := adjust_refCount (\<lambda>r. r - 1) cs (typeInfos w)\<rparr>)"
proof (induction cs arbitrary: t)
  case Nil
  then show ?case by simp
next
  case (Cons c cs)
  then obtain ti where ti: "c = t" "typeInfos w t = Some ti" by (auto split: option.splits)
  have dist: "t \<notin> set cs" using inheritance_chain_distinct [OF Cons.prems] ti by simp
  show ?case
  proof (cases "inheritsFrom ti")
    case None
    with Cons.prems ti have "cs = []" by simp
    moreover have "(typeInfos w)(t \<mapsto> ti\<lparr>refCount := refCount ti - 1\<rparr>) = adjust_refCount (\<lambda>r. r - 1) [t] (typeInfos w)"
      using ti by (auto simp: adjust_refCount_def)
    ultimately show ?thesis using None ti
      by (subst DereferenceTypeInfo.simps) simp
  next
    case (Some p)
    with Cons.prems ti have "inheritance_chain (typeInfos w) p cs" by simp
    from Cons.IH [OF this]
    have IH: "DereferenceTypeInfo p w = Some (w\<lparr>typeInfos := adjust_refCount (\<lambda>r. r - 1) cs (typeInfos w)\<rparr>)" .
    have at_t: "adjust_refCount (\<lambda>r. r - 1) cs (typeInfos w) t = Some ti"
      using dist ti by (simp add: adjust_refCount_def)
    have "(adjust_refCount (\<lambda>r. r - 1) cs (typeInfos w))(t \<mapsto> ti\<lparr>refCount := refCount ti - 1\<rparr>)
        = adjust_refCount (\<lambda>r. r - 1) (t # cs) (typeInfos w)"
      using ti by (auto simp: adjust_refCount_def)
    with IH at_t Some ti show ?thesis
      by (subst DereferenceTypeInfo.simps) simp
  qed
qed

lemma adjust_refCount_inverse:
  "adjust_refCount (\<lambda>r. r - 1) cs (adjust_refCount (\<lambda>r. r + 1) cs m) = m"
  by (rule ext) (simp add: adjust_refCount_def option.map_comp comp_def option.map_ident)


lemma fold_remove1_prefix: "fold remove1 xs (xs @ L) = L"
  by (induction xs) simp_all

lemma destroy_plugins_eq:
  "destroy_plugins ps rtObj w =
     w\<lparr>livePlugins := fold remove1 (map (plugin_inst rtObj) ps) (livePlugins w)\<rparr>"
  by (induction ps arbitrary: w) simp_all

lemma construct_plugins_eq:
  "livePlugins w = map (plugin_inst rtObj) dn @ L \<Longrightarrow>
   construct_plugins ps dn rtObj w =
     (list_all (\<lambda>p. OnPluginConstruct (plugInterface p) rtObj) ps,
      w\<lparr>livePlugins :=
          (if list_all (\<lambda>p. OnPluginConstruct (plugInterface p) rtObj) ps
           then rev (map (plugin_inst rtObj) ps) @ map (plugin_inst rtObj) dn @ L else L)\<rparr>)"
proof (induction ps arbitrary: w dn)
  case Nil
  then show ?case by simp
next
  case (Cons p ps)
  show ?case
  proof (cases "OnPluginConstruct (plugInterface p) rtObj")
    case True
    let ?w1 = "w\<lparr>livePlugins := plugin_inst rtObj p # livePlugins w\<rparr>"
    have "livePlugins ?w1 = map (plugin_inst rtObj) (p # dn) @ L" using Cons.prems by simp
    from Cons.IH [OF this] True show ?thesis by simp
  next
    case False
    with Cons.prems show ?thesis
      by (simp add: destroy_plugins_eq fold_remove1_prefix)
  qed
qed

lemma ConstructPluginBlock_eq:
  "ConstructPluginBlock reg rtObj w =
     (list_all (\<lambda>p. OnPluginConstruct (plugInterface p) rtObj) reg,
      w\<lparr>livePlugins :=
          (if list_all (\<lambda>p. OnPluginConstruct (plugInterface p) rtObj) reg
           then rev (map (plugin_inst rtObj) reg) @ livePlugins w else livePlugins w)\<rparr>)"
  unfolding ConstructPluginBlock_def
  by (subst construct_plugins_eq [where L = "livePlugins w"]) simp_all

lemma DestroyPluginBlock_eq:
  "DestroyPluginBlock reg rtObj w =
     w\<lparr>livePlugins := fold remove1 (rev (map (plugin_inst rtObj) reg)) (livePlugins w)\<rparr>"
  by (simp add: DestroyPluginBlock_def destroy_plugins_eq rev_map)

lemma DestructPlugins_chain:
  "inheritance_chain (typeInfos w) t cs \<Longrightarrow>
   DestructPlugins t rtObj w =
     Some (w\<lparr>livePlugins := fold remove1 (chain_insts (typeInfos w) rtObj cs) (livePlugins w)\<rparr>)"
proof (induction cs arbitrary: t w)
  case Nil
  then show ?case by simp
next
  case (Cons c cs)
  then obtain ti where ti: "c = t" "typeInfos w t = Some ti" by (auto split: option.splits)
  have blk: "block_insts (typeInfos w) rtObj t = rev (map (plugin_inst rtObj) (structRegistry ti))"
    using ti by (simp add: block_insts_def)
  show ?case
  proof (cases "inheritsFrom ti")
    case None
    with Cons.prems ti have "cs = []" by simp
    with None ti blk show ?thesis
      by (subst DestructPlugins.simps) (simp add: DestroyPluginBlock_eq chain_insts_def)
  next
    case (Some p)
    let ?w1 = "DestroyPluginBlock (structRegistry ti) rtObj w"
    have tw1: "typeInfos ?w1 = typeInfos w" by (simp add: DestroyPluginBlock_eq)
    from Some Cons.prems ti have "inheritance_chain (typeInfos ?w1) p cs" by (simp add: tw1)
    from Cons.IH [OF this] Some ti blk show ?thesis
      by (subst DestructPlugins.simps) (simp add: DestroyPluginBlock_eq chain_insts_def)
  qed
qed

lemma ConstructPlugins_chain:
  "inheritance_chain (typeInfos w) t cs \<Longrightarrow>
   ConstructPlugins t rtObj w =
     Some (list_all (block_constructs (typeInfos w) rtObj) cs,
           w\<lparr>livePlugins :=
               (if list_all (block_constructs (typeInfos w) rtObj) cs
                then chain_insts (typeInfos w) rtObj cs @ livePlugins w else livePlugins w)\<rparr>)"
proof (induction cs arbitrary: t)
  case Nil
  then show ?case by simp
next
  case (Cons c cs)
  then obtain ti where ti: "c = t" "typeInfos w t = Some ti" by (auto split: option.splits)
  have blk: "block_insts (typeInfos w) rtObj t = rev (map (plugin_inst rtObj) (structRegistry ti))"
    using ti by (simp add: block_insts_def)
  have bc: "block_constructs (typeInfos w) rtObj t =
        list_all (\<lambda>p. OnPluginConstruct (plugInterface p) rtObj) (structRegistry ti)"
    using ti by (simp add: block_constructs_def)
  show ?case
  proof (cases "inheritsFrom ti")
    case None
    with Cons.prems ti have "cs = []" by simp
    with None ti blk bc show ?thesis
      by (subst ConstructPlugins.simps) (simp add: ConstructPluginBlock_eq chain_insts_def)
  next
    case (Some p)
    with Cons.prems ti have ch: "inheritance_chain (typeInfos w) p cs" by simp
    note IH = Cons.IH [OF ch]
    show ?thesis
    proof (cases "list_all (block_constructs (typeInfos w) rtObj) cs")
      case False
      with IH Some ti show ?thesis
        by (subst ConstructPlugins.simps) simp
    next
      case parents: True
      let ?w1 = "w\<lparr>livePlugins := chain_insts (typeInfos w) rtObj cs @ livePlugins w\<rparr>"
      show ?thesis
      proof (cases "block_constructs (typeInfos w) rtObj t")
        case True
        with parents IH Some ti blk bc show ?thesis
          by (subst ConstructPlugins.simps) (simp add: ConstructPluginBlock_eq chain_insts_def)
      next
        case False
        have "inheritance_chain (typeInfos ?w1) p cs" using ch by simp
        from DestructPlugins_chain [OF this, of rtObj]
        have "DestructPlugins p rtObj ?w1 = Some (w\<lparr>livePlugins := livePlugins w\<rparr>)"
          by (simp add: fold_remove1_prefix)
        with False parents IH Some ti blk bc show ?thesis
          by (subst ConstructPlugins.simps) (simp add: ConstructPluginBlock_eq)
      qed
    qed
  qed
qed

lemma AssignPlugins_chain:
  "inheritance_chain (typeInfos w) t cs \<Longrightarrow>
   AssignPlugins t dstRtObj srcRtObj w =
     Some (list_all (block_assigns (typeInfos w) dstRtObj srcRtObj) cs)"
proof (induction cs arbitrary: t)
  case Nil
  then show ?case by simp
next
  case (Cons c cs)
  then obtain ti where ti: "c = t" "typeInfos w t = Some ti" by (auto split: option.splits)
  have ba: "block_assigns (typeInfos w) dstRtObj srcRtObj t =
        AssignPluginBlock (structRegistry ti) dstRtObj srcRtObj"
    using ti by (simp add: block_assigns_def)
  show ?case
  proof (cases "inheritsFrom ti")
    case None
    with Cons.prems ti have "cs = []" by simp
    with None ti ba show ?thesis
      by (subst AssignPlugins.simps) simp
  next
    case (Some p)
    with Cons.prems ti have "inheritance_chain (typeInfos w) p cs" by simp
    from Cons.IH [OF this] Some ti ba show ?thesis
      by (subst AssignPlugins.simps) auto
  qed
qed


lemma adjust_refCount_at:
  "m t = Some ti \<Longrightarrow> t \<in> set cs \<Longrightarrow>
   adjust_refCount f cs m t = Some (ti\<lparr>refCount := f (refCount ti)\<rparr>)"
  by (simp add: adjust_refCount_def)

lemma block_constructs_adjust [simp]:
  "block_constructs (adjust_refCount f xs m) rtObj = block_constructs m rtObj"
  by (rule ext) (auto simp: block_constructs_def adjust_refCount_def split: option.splits)

lemma block_assigns_adjust [simp]:
  "block_assigns (adjust_refCount f xs m) d s = block_assigns m d s"
  by (rule ext) (auto simp: block_assigns_def adjust_refCount_def split: option.splits)

lemma block_insts_adjust [simp]:
  "block_insts (adjust_refCount f xs m) rtObj = block_insts m rtObj"
  by (rule ext) (auto simp: block_insts_def adjust_refCount_def split: option.splits)

lemma chain_insts_adjust [simp]:
  "chain_insts (adjust_refCount f xs m) rtObj cs = chain_insts m rtObj cs"
  by (simp add: chain_insts_def)

lemma plugin_block_size_adjust [simp]:
  "plugin_block_size (adjust_refCount f xs m) = plugin_block_size m"
  by (rule ext) (auto simp: plugin_block_size_def adjust_refCount_def split: option.splits)

lemma ConstructPlacement_chain:
  assumes ch: "inheritance_chain (typeInfos w) t cs" and ti: "typeInfos w t = Some ti"
  shows "ConstructPlacement objMem t p w =
     Some (placement_result objMem t cs (tInterface ti)
             (tConstruct (tInterface ti) (objMem + 1 * sizeof_GenericRTTI) p) w)"
proof -
  let ?m1 = "adjust_refCount (\<lambda>r. r + 1) cs (typeInfos w)"
  let ?w1 = "w\<lparr>typeInfos := ?m1\<rparr>"
  have mem: "t \<in> set cs" using ch by (cases cs) auto
  have ref: "ReferenceTypeInfo t w = Some ?w1" by (rule ReferenceTypeInfo_chain [OF ch])
  have ti1: "?m1 t = Some (ti\<lparr>refCount := refCount ti + 1\<rparr>)"
    using ti mem by (simp add: adjust_refCount_at)
  have deref: "DereferenceTypeInfo t (w\<lparr>typeInfos := ?m1, rttiMem := R, livePayloads := P\<rparr>)
      = Some (w\<lparr>rttiMem := R, livePayloads := P\<rparr>)" for R P
  proof -
    have "inheritance_chain (typeInfos (w\<lparr>typeInfos := ?m1, rttiMem := R, livePayloads := P\<rparr>)) t cs"
      using ch by simp
    from DereferenceTypeInfo_chain [OF this] show ?thesis
      by (simp add: adjust_refCount_inverse)
  qed
  have deref': "DereferenceTypeInfo t (w\<lparr>typeInfos := ?m1, rttiMem := R\<rparr>)
      = Some (w\<lparr>rttiMem := R\<rparr>)" for R
  proof -
    have "inheritance_chain (typeInfos (w\<lparr>typeInfos := ?m1, rttiMem := R\<rparr>)) t cs"
      using ch by simp
    from DereferenceTypeInfo_chain [OF this] show ?thesis
      by (simp add: adjust_refCount_inverse)
  qed
  have cp: "ConstructPlugins t objMem (w\<lparr>typeInfos := ?m1, rttiMem := R, livePayloads := P\<rparr>) =
      Some (list_all (block_constructs (typeInfos w) objMem) cs,
            w\<lparr>typeInfos := ?m1, rttiMem := R, livePayloads := P,
              livePlugins := (if list_all (block_constructs (typeInfos w) objMem) cs
                              then chain_insts (typeInfos w) objMem cs @ livePlugins w
                              else livePlugins w)\<rparr>)" for R P
  proof -
    have "inheritance_chain (typeInfos (w\<lparr>typeInfos := ?m1, rttiMem := R, livePayloads := P\<rparr>)) t cs"
      using ch by simp
    from ConstructPlugins_chain [OF this, of objMem] show ?thesis by simp
  qed
  show ?thesis
  proof (cases "tConstruct (tInterface ti) (objMem + 1 * sizeof_GenericRTTI) p")
    case (Some e)
    then show ?thesis
      unfolding ConstructPlacement_def placement_result_def
      by (simp add: ref ti1 deref' Let_def)
  next
    case None
    show ?thesis
    proof (cases "list_all (block_constructs (typeInfos w) objMem) cs")
      case True
      with None show ?thesis
        unfolding ConstructPlacement_def placement_result_def
        by (simp add: ref ti1 cp Let_def)
    next
      case False
      with None show ?thesis
        unfolding ConstructPlacement_def placement_result_def
        by (cases "tDestruct (tInterface ti) (objMem + 1 * sizeof_GenericRTTI)")
           (simp_all add: ref ti1 cp deref deref' Let_def)
    qed
  qed
qed


lemma GetTypeStructSize_chain:
  "inheritance_chain (typeInfos w) t cs \<Longrightarrow> typeInfos w t = Some ti \<Longrightarrow>
   GetTypeStructSize t p w =
     Some (if GetTypeSize (tInterface ti) p \<noteq> 0
           then GetTypeSize (tInterface ti) p + sizeof_GenericRTTI
                  + sum_list (map (plugin_block_size (typeInfos w)) cs)
           else GetTypeSize (tInterface ti) p)"
  by (simp add: GetTypeStructSize_def GetTypePluginSize_chain Let_def)

lemma Construct_chain:
  assumes ch: "inheritance_chain (typeInfos w) t cs" and ti: "typeInfos w t = Some ti"
  shows "Construct al t p w = Some (construct_result al t cs (tInterface ti) p w)"
proof -
  let ?m1 = "adjust_refCount (\<lambda>r. r + 1) cs (typeInfos w)"
  let ?w1 = "w\<lparr>typeInfos := ?m1\<rparr>"
  let ?sz = "struct_size cs (tInterface ti) p w"
  have mem: "t \<in> set cs" using ch by (cases cs) auto
  have ref: "ReferenceTypeInfo t w = Some ?w1" by (rule ReferenceTypeInfo_chain [OF ch])
  have ti1: "typeInfos ?w1 t = Some (ti\<lparr>refCount := refCount ti + 1\<rparr>)"
    using ti mem by (simp add: adjust_refCount_at)
  have ch1: "inheritance_chain (typeInfos ?w1) t cs" using ch by simp
  have size: "GetTypeStructSize t p ?w1 = Some ?sz"
    using GetTypeStructSize_chain [OF ch1 ti1, of p] by (simp add: struct_size_def)
  have deref1: "DereferenceTypeInfo t ?w1 = Some w"
    using DereferenceTypeInfo_chain [OF ch1] by (simp add: adjust_refCount_inverse)
  show ?thesis
  proof (cases "?sz = 0")
    case True
    then show ?thesis
      by (simp add: Construct_def construct_result_def ref size deref1)
  next
    case nz: False
    show ?thesis
    proof (cases "al ?sz STANDARD_OBJECT_ALIGNMENT (allocated w)")
      case None
      with nz show ?thesis
        by (simp add: Construct_def construct_result_def ref size deref1 Allocate_def)
    next
      case (Some objMem)
      let ?w2 = "?w1\<lparr>allocated := objMem # allocated w\<rparr>"
      let ?c = "tConstruct (tInterface ti) (objMem + 1 * sizeof_GenericRTTI) p"
      have ch2: "inheritance_chain (typeInfos ?w2) t cs" using ch by simp
      have ti2: "typeInfos ?w2 t = Some (ti\<lparr>refCount := refCount ti + 1\<rparr>)"
        using ti1 by simp
      have cp: "ConstructPlacement objMem t p ?w2 =
          Some (placement_result objMem t cs (tInterface ti) ?c ?w2)"
        using ConstructPlacement_chain [OF ch2 ti2, of objMem p] by simp
      note D = DereferenceTypeInfo_chain [where t = t and cs = cs]
      have unfold: "Construct al t p w =
          (case placement_result objMem t cs (tInterface ti) ?c ?w2 of
             (r, w3) \<Rightarrow>
               Option.bind
                 (case r of Inl e \<Rightarrow> Some (Inl e, Free objMem w3)
                  | Inr objOut \<Rightarrow> if objOut = None then Some (Inr None, Free objMem w3)
                                  else Some (Inr objOut, w3))
                 (\<lambda>(r, w4). Option.bind (DereferenceTypeInfo t w4) (\<lambda>w5. Some (r, w5))))"
        using nz Some
        by (simp add: Construct_def ref size Allocate_def cp split: prod.splits)
      show ?thesis
      proof (cases ?c)
        case c: (Some e)
        show ?thesis
          unfolding unfold construct_result_def placement_result_def
          using nz Some c ch
          by (simp add: Let_def Free_def D adjust_refCount_inverse)
      next
        case c: None
        show ?thesis
        proof (cases "list_all (block_constructs (typeInfos w) objMem) cs")
          case True
          show ?thesis
            unfolding unfold construct_result_def placement_result_def
            using nz Some c ch True
            by (simp add: Let_def Free_def D adjust_refCount_inverse)
        next
          case False
          show ?thesis
            unfolding unfold construct_result_def placement_result_def
            using nz Some c ch False
            by (cases "tDestruct (tInterface ti) (objMem + 1 * sizeof_GenericRTTI)")
               (simp_all add: Let_def Free_def D adjust_refCount_inverse)
        qed
      qed
    qed
  qed
qed

lemma inheritance_chain_mem: "inheritance_chain m t cs \<Longrightarrow> t \<in> set cs"
  by (cases cs) auto

lemma inheritance_chain_dom:
  "inheritance_chain m t cs \<Longrightarrow> c \<in> set cs \<Longrightarrow> \<exists>tc. m c = Some tc"
proof -
  assume "inheritance_chain m t cs" "c \<in> set cs"
  from inheritance_chain_suffix [OF this] obtain ys zs where "inheritance_chain m c zs" by blast
  then show ?thesis by (cases zs) (auto split: option.splits)
qed

lemma Construct_success:
  assumes ch: "inheritance_chain (typeInfos w) d cs" and ti: "typeInfos w d = Some ti"
    and ok: "Construct al d p w = Some (Inr (Some obj), w')"
  shows "w' = w\<lparr>typeInfos := adjust_refCount (\<lambda>r. r + 1) cs (typeInfos w),
                rttiMem := (rttiMem w)(obj \<mapsto> \<lparr> type_meta = d \<rparr>),
                livePayloads := (obj + 1 * sizeof_GenericRTTI) # livePayloads w,
                livePlugins := chain_insts (typeInfos w) obj cs @ livePlugins w,
                allocated := obj # allocated w\<rparr>"
  using ok unfolding Construct_chain [OF ch ti]
  by (auto simp: construct_result_def placement_result_def Let_def
           split: option.splits if_splits)

lemma Destroy_chain:
  assumes ch: "inheritance_chain (typeInfos w) d cs" and ti: "typeInfos w d = Some ti"
    and hdr: "rttiMem w obj = Some \<lparr> type_meta = d \<rparr>"
    and nothrow: "tDestruct (tInterface ti) (obj + 1 * sizeof_GenericRTTI) = None"
  shows "Destroy obj w =
     Some (Inr (), w\<lparr>typeInfos := adjust_refCount (\<lambda>r. r - 1) cs (typeInfos w),
                     livePayloads := remove1 (obj + 1 * sizeof_GenericRTTI) (livePayloads w),
                     livePlugins := fold remove1 (chain_insts (typeInfos w) obj cs) (livePlugins w),
                     allocated := remove1 obj (allocated w)\<rparr>)"
proof -
  note D = DereferenceTypeInfo_chain [where t = d and cs = cs]
  show ?thesis
    using ch ti hdr nothrow
    by (simp add: Destroy_def DestroyPlacement_def GetTypeInfoFromTypeStruct_def
          DestructPlugins_chain [OF ch] D Free_def)
qed



section \<open>Properties of the path iterator\<close>

lemma char_at_append_left: "i < length p \<Longrightarrow> char_at (p @ q) i = char_at p i"
  by (simp add: char_at_def nth_append)

lemma char_at_nonzero: "CHR 0x00 \<notin> set p \<Longrightarrow> i < length p \<Longrightarrow> char_at p i \<noteq> CHR 0x00"
  by (auto simp: char_at_def dest: nth_mem)

lemma strncmp_colons_trail:
  assumes "p \<noteq> []" "last p \<noteq> CHR '':''" "i < length p"
  shows "strncmp_colons (p @ ''::'') i = strncmp_colons p i"
proof (cases "i + 1 < length p")
  case True
  with assms show ?thesis by (simp add: strncmp_colons_def char_at_append_left)
next
  case False
  with assms have i: "i = length p - 1" by simp
  with assms have "char_at p i = last p" by (simp add: char_at_def last_conv_nth)
  with assms show ?thesis by (simp add: strncmp_colons_def char_at_append_left)
qed

lemma Increment_loop_trail:
  assumes p: "p \<noteq> []" "last p \<noteq> CHR '':''" "CHR 0x00 \<notin> set p"
  shows "i \<le> length p \<Longrightarrow>
     (\<exists>pos. i \<le> pos \<and> pos + 2 < length p
           \<and> Increment_loop p tp i = (pos - tp, pos + 2)
           \<and> Increment_loop (p @ ''::'') tp i = (pos - tp, pos + 2))
     \<or> (Increment_loop p tp i = (length p - tp, length p)
           \<and> Increment_loop (p @ ''::'') tp i = (length p - tp, length p + 2))"
proof (induction "length p - i" arbitrary: i)
  case 0
  then have i: "i = length p" by simp
  have "char_at p (length p) = CHR 0x00" by (simp add: char_at_def)
  moreover have "char_at (p @ ''::'') (length p) = CHR '':''"
      "char_at (p @ ''::'') (length p + 1) = CHR '':''"
    by (simp_all add: char_at_def nth_append)
  ultimately show ?case
    unfolding i
    by (subst Increment_loop.simps, subst (2) Increment_loop.simps)
       (simp add: strncmp_colons_def)
next
  case (Suc k)
  then have lt: "i < length p" by simp
  have nz: "char_at p i \<noteq> CHR 0x00" using p(3) lt by (rule char_at_nonzero)
  have nz': "char_at (p @ ''::'') i \<noteq> CHR 0x00" using nz lt by (simp add: char_at_append_left)
  have sc: "strncmp_colons (p @ ''::'') i = strncmp_colons p i"
    using p(1,2) lt by (rule strncmp_colons_trail)
  show ?case
  proof (cases "strncmp_colons p i")
    case True
    then have "i + 1 < length p"
      by (simp add: strncmp_colons_def char_at_def split: if_splits)
    moreover have "i + 2 \<noteq> length p"
    proof
      assume e: "i + 2 = length p"
      then have "length p - 1 = i + 1" by simp
      then have "last p = p ! (i + 1)" using p(1) by (simp add: last_conv_nth)
      moreover from True e have "p ! (i + 1) = CHR '':''"
        by (simp add: strncmp_colons_def char_at_def split: if_splits)
      ultimately show False using p(2) by simp
    qed
    ultimately have "i + 2 < length p" by simp
    moreover have "Increment_loop p tp i = (i - tp, i + 2)"
      using nz True by (subst Increment_loop.simps) simp
    moreover have "Increment_loop (p @ ''::'') tp i = (i - tp, i + 2)"
      using nz' True sc by (subst Increment_loop.simps) simp
    ultimately show ?thesis by blast
  next
    case False
    have step: "Increment_loop p tp i = Increment_loop p tp (i + 1)"
      using nz False by (subst Increment_loop.simps) simp
    have step': "Increment_loop (p @ ''::'') tp i = Increment_loop (p @ ''::'') tp (i + 1)"
      using nz' False sc by (subst Increment_loop.simps) simp
    have "k = length p - (i + 1)" "i + 1 \<le> length p" using Suc.hyps(2) lt by simp_all
    from Suc.hyps(1) [OF this] show ?thesis
      unfolding step step' by (auto intro: Suc_leD)
  qed
qed

lemma Increment_trail_step:
  assumes p: "p \<noteq> []" "last p \<noteq> CHR '':''" "CHR 0x00 \<notin> set p"
    and lt: "type_iter_ptr it < length p"
  shows "(Increment (p @ ''::'') it = Increment p it
              \<and> type_iter_ptr (Increment p it) < length p
              \<and> typePath (Increment p it) + tokenLen (Increment p it) \<le> length p)
           \<or> (typePath (Increment (p @ ''::'') it) = typePath (Increment p it)
              \<and> tokenLen (Increment (p @ ''::'') it) = tokenLen (Increment p it)
              \<and> typePath (Increment p it) < length p
              \<and> typePath (Increment p it) + tokenLen (Increment p it) \<le> length p
              \<and> type_iter_ptr (Increment p it) = length p
              \<and> type_iter_ptr (Increment (p @ ''::'') it) = length p + 2)"
proof -
  from lt have le: "type_iter_ptr it \<le> length p" by simp
  from Increment_loop_trail [OF p le, of "type_iter_ptr it"] lt
  show ?thesis by (auto simp: Increment_def Let_def)
qed

lemma Increment_trail_last:
  assumes "type_iter_ptr it = length p" "type_iter_ptr it' = length p + 2"
  shows "IsEnd (Increment p it) \<and> IsEnd (Increment (p @ ''::'') it')"
proof -
  have "char_at p (length p) = CHR 0x00" "char_at (p @ ''::'') (length p + 2) = CHR 0x00"
    by (simp_all add: char_at_def)
  then have "Increment_loop p (length p) (length p) = (0, length p)"
      "Increment_loop (p @ ''::'') (length p + 2) (length p + 2) = (0, length p + 2)"
    by (subst Increment_loop.simps, simp)+
  with assms show ?thesis by (simp add: Increment_def IsEnd_def Let_def)
qed

lemma ResolveTypeInfo_loop_trail:
  "p \<noteq> [] \<Longrightarrow> last p \<noteq> CHR '':'' \<Longrightarrow> CHR 0x00 \<notin> set p \<Longrightarrow>
     (it' = it \<and> type_iter_ptr it < length p \<and> typePath it + tokenLen it \<le> length p)
       \<or> (typePath it' = typePath it \<and> tokenLen it' = tokenLen it
            \<and> typePath it < length p \<and> typePath it + tokenLen it \<le> length p
            \<and> type_iter_ptr it = length p \<and> type_iter_ptr it' = length p + 2)
       \<or> (IsEnd it \<and> IsEnd it')
     \<Longrightarrow> ResolveTypeInfo_loop (p @ ''::'') w it' cur = ResolveTypeInfo_loop p w it cur"
proof (induction p w it cur arbitrary: it' rule: ResolveTypeInfo_loop.induct)
  case (1 s w it currentType)
  note p = "1.prems"(1,2,3)
  show ?case
  proof (cases "IsEnd it \<and> IsEnd it'")
    case True
    then show ?thesis
      by (subst ResolveTypeInfo_loop.simps, subst (2) ResolveTypeInfo_loop.simps) simp
  next
    case False
    with "1.prems"(4) have rel:
      "(it' = it \<and> type_iter_ptr it < length s \<and> typePath it + tokenLen it \<le> length s)
       \<or> (typePath it' = typePath it \<and> tokenLen it' = tokenLen it
            \<and> typePath it < length s \<and> typePath it + tokenLen it \<le> length s
            \<and> type_iter_ptr it = length s \<and> type_iter_ptr it' = length s + 2)"
      by blast
    have ends: "IsEnd it' = IsEnd it" using rel by (auto simp: IsEnd_def)
    have tok: "Resolve (s @ ''::'') it' = Resolve s it"
      using rel by (auto simp: Resolve_def)
    show ?thesis
    proof (cases "IsEnd it")
      case True
      with ends show ?thesis
        by (subst ResolveTypeInfo_loop.simps, subst (2) ResolveTypeInfo_loop.simps) simp
    next
      case ne: False
      let ?found = "FindTypeInfo (Resolve s it) currentType w"
      show ?thesis
      proof (cases "?found = None")
        case True
        with ne ends tok show ?thesis
          by (subst ResolveTypeInfo_loop.simps, subst (2) ResolveTypeInfo_loop.simps)
             (simp add: Let_def)
      next
        case False
        then obtain y where fnd: "?found = Some y" by blast
        have next_rel:
          "(Increment (s @ ''::'') it' = Increment s it
              \<and> type_iter_ptr (Increment s it) < length s
              \<and> typePath (Increment s it) + tokenLen (Increment s it) \<le> length s)
           \<or> (typePath (Increment (s @ ''::'') it') = typePath (Increment s it)
              \<and> tokenLen (Increment (s @ ''::'') it') = tokenLen (Increment s it)
              \<and> typePath (Increment s it) < length s
              \<and> typePath (Increment s it) + tokenLen (Increment s it) \<le> length s
              \<and> type_iter_ptr (Increment s it) = length s
              \<and> type_iter_ptr (Increment (s @ ''::'') it') = length s + 2)
           \<or> (IsEnd (Increment s it) \<and> IsEnd (Increment (s @ ''::'') it'))"
          using rel Increment_trail_step [OF p, of it] Increment_trail_last [of it s it']
          by blast
        have "ResolveTypeInfo_loop (s @ ''::'') w (Increment (s @ ''::'') it') ?found
            = ResolveTypeInfo_loop s w (Increment s it) ?found"
          using ne fnd p next_rel
          by (intro "1.IH"[OF _ refl refl]) simp_all
        then have "ResolveTypeInfo_loop (s @ ''::'') w (Increment (s @ ''::'') it') (Some y)
            = ResolveTypeInfo_loop s w (Increment s it) (Some y)"
          by (simp add: fnd)
        with ne ends tok fnd show ?thesis
          by (subst ResolveTypeInfo_loop.simps, subst (2) ResolveTypeInfo_loop.simps)
             (simp add: Let_def)
      qed
    qed
  qed
qed


section \<open>Properties of cloning\<close>

lemma GetTypeStructPluginSize_chain:
  "inheritance_chain (typeInfos w) t cs \<Longrightarrow>
   GetTypeStructPluginSize t obj w = Some (sum_list (map (plugin_block_size (typeInfos w)) cs))"
proof (induction cs arbitrary: t)
  case Nil
  then show ?case by simp
next
  case (Cons c cs)
  then obtain ti where ti: "c = t" "typeInfos w t = Some ti" by (auto split: option.splits)
  have blk: "plugin_block_size (typeInfos w) t = GetPluginSizeByObject (structRegistry ti) obj"
    using ti by (simp add: plugin_block_size_def GetPluginSizeByObject_def
          GetPluginSizeByRuntime_def)
  show ?case
  proof (cases "inheritsFrom ti")
    case None
    with Cons.prems ti blk show ?thesis
      by (subst GetTypeStructPluginSize.simps) simp
  next
    case (Some p)
    with Cons.prems ti have "inheritance_chain (typeInfos w) p cs" by simp
    from Cons.IH [OF this] Some ti blk show ?thesis
      by (subst GetTypeStructPluginSize.simps) simp
  qed
qed

lemma ClonePlacement_assign_failure:
  assumes ch: "inheritance_chain (typeInfos w) d cs" and ti: "typeInfos w d = Some ti"
    and hdr: "rttiMem w src = Some \<lparr> type_meta = d \<rparr>"
    and copy: "tCopyConstruct (tInterface ti) (objMem + 1 * sizeof_GenericRTTI)
                 (src + 1 * sizeof_GenericRTTI) = None"
    and cons: "list_all (block_constructs (typeInfos w) objMem) cs"
    and asg: "\<not> list_all (block_assigns (typeInfos w) objMem src) cs"
    and nothrow: "tDestruct (tInterface ti) (objMem + 1 * sizeof_GenericRTTI) = None"
  shows "ClonePlacement objMem src w =
     Some (Inr None, w\<lparr>rttiMem := (rttiMem w)(objMem \<mapsto> \<lparr> type_meta = d \<rparr>),
                       livePlugins := chain_insts (typeInfos w) objMem cs @ livePlugins w\<rparr>)"
proof -
  let ?m1 = "adjust_refCount (\<lambda>r. r + 1) cs (typeInfos w)"
  have ref: "ReferenceTypeInfo d w = Some (w\<lparr>typeInfos := ?m1\<rparr>)"
    by (rule ReferenceTypeInfo_chain [OF ch])
  have ti1: "?m1 d = Some (ti\<lparr>refCount := refCount ti + 1\<rparr>)"
    using ti inheritance_chain_mem [OF ch] by (simp add: adjust_refCount_at)
  note C = ConstructPlugins_chain [where t = d and cs = cs]
  note A = AssignPlugins_chain [where t = d and cs = cs]
  note D = DereferenceTypeInfo_chain [where t = d and cs = cs]
  show ?thesis
    using ch hdr copy cons asg nothrow
    by (simp add: ClonePlacement_def GetTypeInfoFromTypeStruct_def ref ti1 Let_def C A D
          adjust_refCount_inverse)
qed

lemma Clone_assign_failure:
  assumes ch: "inheritance_chain (typeInfos w) d cs" and ti: "typeInfos w d = Some ti"
    and hdr: "rttiMem w src = Some \<lparr> type_meta = d \<rparr>"
    and sz: "GetTypeSizeByObject (tInterface ti) (GetObjectFromTypeStruct src) \<noteq> 0"
    and tot: "GetTypeSizeByObject (tInterface ti) (GetObjectFromTypeStruct src)
                + sizeof_GenericRTTI + sum_list (map (plugin_block_size (typeInfos w)) cs) \<noteq> 0"
    and alloc: "al (GetTypeSizeByObject (tInterface ti) (GetObjectFromTypeStruct src)
                     + sizeof_GenericRTTI + sum_list (map (plugin_block_size (typeInfos w)) cs))
                  STANDARD_OBJECT_ALIGNMENT (allocated w) = Some objMem"
    and copy: "tCopyConstruct (tInterface ti) (objMem + 1 * sizeof_GenericRTTI)
                 (src + 1 * sizeof_GenericRTTI) = None"
    and cons: "list_all (block_constructs (typeInfos w) objMem) cs"
    and asg: "\<not> list_all (block_assigns (typeInfos w) objMem src) cs"
    and nothrow: "tDestruct (tInterface ti) (objMem + 1 * sizeof_GenericRTTI) = None"
  shows "Clone al src w =
     Some (Inr None, w\<lparr>rttiMem := (rttiMem w)(objMem \<mapsto> \<lparr> type_meta = d \<rparr>),
                       livePlugins := chain_insts (typeInfos w) objMem cs @ livePlugins w\<rparr>)"
proof -
  let ?w1 = "w\<lparr>allocated := objMem # allocated w\<rparr>"
  have size: "GetTypeStructSize_obj src w =
      Some (GetTypeSizeByObject (tInterface ti) (GetObjectFromTypeStruct src)
              + sizeof_GenericRTTI + sum_list (map (plugin_block_size (typeInfos w)) cs))"
    using ti hdr sz
    by (simp add: GetTypeStructSize_obj_def GetTypeInfoFromTypeStruct_def Let_def
          GetTypeStructPluginSize_chain [OF ch])
  have cp: "ClonePlacement objMem src ?w1 =
     Some (Inr None, ?w1\<lparr>rttiMem := (rttiMem ?w1)(objMem \<mapsto> \<lparr> type_meta = d \<rparr>),
                       livePlugins := chain_insts (typeInfos ?w1) objMem cs @ livePlugins ?w1\<rparr>)"
    by (rule ClonePlacement_assign_failure [where ti = ti])
       (use ch ti hdr copy cons asg nothrow in simp_all)
  from tot alloc cp show ?thesis
    by (simp add: Clone_def size Allocate_def Free_def)
qed

section \<open>The claims\<close>

text \<open>
  C1, as amended. When the payload constructor of a descriptor throws (as that of every
  abstract type does), \<open>ConstructPlacement\<close> catches the exception: \<open>Construct\<close> returns
  \<open>nullptr\<close> and throws nothing, the block it allocated is freed and the reference counts of
  the chain are what they were.
\<close>

theorem failing_payload_constructor_returns_null:
  assumes ch: "inheritance_chain (typeInfos w) d cs" and ti: "typeInfos w d = Some ti"
    and fails: "\<forall>mem. tConstruct (tInterface ti) mem p = Some e"
  shows "\<exists>w'. Construct al d p w = Some (Inr None, w') \<and> allocated w' = allocated w
            \<and> typeInfos w' = typeInfos w"
  unfolding Construct_chain [OF ch ti]
  by (auto simp: construct_result_def placement_result_def Let_def fails
           split: option.splits)

text \<open>
  The theorem at the abstract type \<open>Shape\<close>.
\<close>

theorem failing_payload_constructor_returns_null_witness:
  "inheritance_chain (typeInfos shape_sys) 0x1000 [0x1000]
   \<and> typeInfos shape_sys 0x1000 = Some type_Shape
   \<and> (\<forall>mem. tConstruct (tInterface type_Shape) mem 0 = Some abstraction_construction_exception)
   \<and> (\<exists>w'. Construct example_alloc 0x1000 0 shape_sys = Some (Inr None, w')
           \<and> allocated w' = allocated shape_sys \<and> typeInfos w' = typeInfos shape_sys)"
proof -
  have ch: "inheritance_chain (typeInfos shape_sys) 0x1000 [0x1000]"
    and ti: "typeInfos shape_sys 0x1000 = Some type_Shape"
    and fails: "\<forall>mem. tConstruct (tInterface type_Shape) mem 0 = Some abstraction_construction_exception"
    by (simp_all add: type_Shape_def shape_sys_def abstract_structTypeInterface_def
          empty_sys_def example_alloc_def)
  from failing_payload_constructor_returns_null [OF ch ti fails, of example_alloc] ch ti fails
  show ?thesis by blast
qed

text \<open>
  The claim as stated fails: registering the abstract type \<open>Shape\<close> on the empty system
  and constructing it gives \<open>nullptr\<close>, not \<open>abstraction_construction_exception\<close>.
\<close>

theorem abstract_construct_counterexample:
  "RegisterAbstractType example_alloc (64, 8) 16 ''Shape'' None empty_sys
     = Some (Inr (Some 0x1000), shape_sys)
   \<and> Construct example_alloc 0x1000 0 shape_sys
     = Some (Inr None, shape_sys\<lparr>rttiMem := [0x1100 \<mapsto> \<lparr> type_meta = 0x1000 \<rparr>]\<rparr>)"
proof
  show "RegisterAbstractType example_alloc (64, 8) 16 ''Shape'' None empty_sys
     = Some (Inr (Some 0x1000), shape_sys)"
    by (simp add: RegisterAbstractType_def RegisterCommonTypeInterface_def static_new_struct_def
          Allocate_def SetupTypeInfoBase_def FindTypeInfoNolock_def
          SetTypeInfoInheritingClass_def rtti_assert_def IsImmutable_def Let_def type_Shape_def
                shape_sys_def abstract_structTypeInterface_def empty_sys_def example_alloc_def)
next
  have ch: "inheritance_chain (typeInfos shape_sys) 0x1000 [0x1000]"
    and ti: "typeInfos shape_sys 0x1000 = Some type_Shape"
    by (simp_all add: type_Shape_def shape_sys_def abstract_structTypeInterface_def
          empty_sys_def example_alloc_def)
  show "Construct example_alloc 0x1000 0 shape_sys
     = Some (Inr None, shape_sys\<lparr>rttiMem := [0x1100 \<mapsto> \<lparr> type_meta = 0x1000 \<rparr>]\<rparr>)"
    unfolding Construct_chain [OF ch ti]
    by (simp add: type_Shape_def shape_sys_def abstract_structTypeInterface_def empty_sys_def
          example_alloc_def construct_result_def struct_size_def placement_result_def
          plugin_block_size_def sizeof_GenericRTTI_def STANDARD_OBJECT_ALIGNMENT_def
          GetPluginSizeByRuntime_def)
qed

text \<open>
  C2. A clone whose plugins construct and whose plugin assignment fails: on the type \<open>Y\<close>
  with one such plugin, \<open>Clone\<close> of the instance at \<open>0x1100\<close> returns \<open>nullptr\<close> with the
  payload destructed, the block freed and the reference counts restored, but the plugin
  struct of the clone at \<open>0x1200\<close> is still constructed: \<open>ClonePlacement\<close> never calls
  \<open>DestructPlugins\<close>.
\<close>

theorem clone_assign_failure_keeps_plugins:
  "Construct example_alloc 0x100 0 y_sys = Some (Inr (Some 0x1100), y_obj_sys)
   \<and> Clone example_alloc 0x1100 y_obj_sys =
       Some (Inr None,
             y_obj_sys\<lparr>rttiMem := (rttiMem y_obj_sys)(0x1200 \<mapsto> \<lparr> type_meta = 0x100 \<rparr>),
                       livePlugins := (0x1200, 0, \<lparr> pluginId = 1, typeInfo = Some 0x100 \<rparr>)
                                        # livePlugins y_obj_sys\<rparr>)"
proof
  have ch: "inheritance_chain (typeInfos y_sys) 0x100 [0x100]"
    and ti: "typeInfos y_sys 0x100 = Some type_Y"
    by (simp_all add: type_Y_def y_sys_def y_obj_sys_def unassignable_plugin_def
          example_alloc_def plain_struct_def structTypeInterface_def)
  show "Construct example_alloc 0x100 0 y_sys = Some (Inr (Some 0x1100), y_obj_sys)"
    unfolding Construct_chain [OF ch ti]
    by (simp add: type_Y_def y_sys_def y_obj_sys_def unassignable_plugin_def example_alloc_def
          plain_struct_def structTypeInterface_def construct_result_def struct_size_def
          placement_result_def plugin_block_size_def sizeof_GenericRTTI_def
          STANDARD_OBJECT_ALIGNMENT_def GetPluginSizeByRuntime_def block_constructs_def
          block_assigns_def AssignPluginBlock_def chain_insts_def block_insts_def
          plugin_inst_def adjust_refCount_def) (rule ext, simp)
next
  have ch: "inheritance_chain (typeInfos y_obj_sys) 0x100 [0x100]"
    and ti: "typeInfos y_obj_sys 0x100 = Some (type_Y\<lparr>refCount := 1\<rparr>)"
    by (simp_all add: type_Y_def y_sys_def y_obj_sys_def unassignable_plugin_def
          example_alloc_def plain_struct_def structTypeInterface_def)
  show "Clone example_alloc 0x1100 y_obj_sys =
       Some (Inr None,
             y_obj_sys\<lparr>rttiMem := (rttiMem y_obj_sys)(0x1200 \<mapsto> \<lparr> type_meta = 0x100 \<rparr>),
                       livePlugins := (0x1200, 0, \<lparr> pluginId = 1, typeInfo = Some 0x100 \<rparr>)
                                        # livePlugins y_obj_sys\<rparr>)"
    by (subst Clone_assign_failure [OF ch ti, where objMem = "0x1200"])
       (simp_all add: type_Y_def y_sys_def y_obj_sys_def unassignable_plugin_def
             example_alloc_def plain_struct_def structTypeInterface_def construct_result_def
             struct_size_def placement_result_def plugin_block_size_def sizeof_GenericRTTI_def
             STANDARD_OBJECT_ALIGNMENT_def GetPluginSizeByRuntime_def block_constructs_def
             block_assigns_def AssignPluginBlock_def chain_insts_def block_insts_def
             plugin_inst_def adjust_refCount_def GetObjectFromTypeStruct_def)
qed

text \<open>
  C3, as amended. \<open>ResolveTypeInfo\<close> on the empty path returns its base argument, and a
  trailing \<open>::\<close> is ignored: for a nonempty path \<open>p\<close> that does not end in a colon, the path
  \<open>p::\<close> resolves to what \<open>p\<close> resolves to.
\<close>

theorem ResolveTypeInfo_empty_and_trailing:
  assumes "p \<noteq> []" and "last p \<noteq> CHR '':''" and "CHR 0x00 \<notin> set p"
  shows "ResolveTypeInfo [] base w = base
       \<and> ResolveTypeInfo (p @ ''::'') base w = ResolveTypeInfo p base w"
proof
  have "char_at [] 0 = CHR 0x00" by (simp add: char_at_def)
  then have "Increment_loop [] 0 0 = (0, 0)" by (subst Increment_loop.simps) simp
  then show "ResolveTypeInfo [] base w = base"
    unfolding ResolveTypeInfo_def type_resolution_iterator_new_def
    by (subst ResolveTypeInfo_loop.simps) (simp add: Increment_def IsEnd_def)
next
  let ?it0 = "\<lparr> typePath = 0, type_iter_ptr = 0, tokenLen = 0 \<rparr>"
  have lt: "type_iter_ptr ?it0 < length p" using assms(1) by simp
  from Increment_trail_step [OF assms lt]
  show "ResolveTypeInfo (p @ ''::'') base w = ResolveTypeInfo p base w"
    unfolding ResolveTypeInfo_def type_resolution_iterator_new_def
    by (intro ResolveTypeInfo_loop_trail [OF assms]) blast
qed

text \<open>
  The theorem at the path \<open>A::B\<close> in the system with the chain \<open>A \<leftarrow> B \<leftarrow> C\<close>.
\<close>

theorem ResolveTypeInfo_empty_and_trailing_witness:
  "''A::B'' \<noteq> [] \<and> last ''A::B'' \<noteq> CHR '':'' \<and> CHR 0x00 \<notin> set ''A::B''
   \<and> ResolveTypeInfo [] None abc_sys = None
   \<and> ResolveTypeInfo ''A::B::'' None abc_sys = Some 0x200
   \<and> ResolveTypeInfo ''A::B'' None abc_sys = Some 0x200"
proof -
  have h: "''A::B'' \<noteq> []" "last ''A::B'' \<noteq> CHR '':''" "CHR 0x00 \<notin> set ''A::B''"
    by simp_all
  have r: "ResolveTypeInfo ''A::B'' None abc_sys = Some 0x200"
    by (simp add: ResolveTypeInfo_def type_resolution_iterator_new_def Increment_def
          Increment_loop.simps ResolveTypeInfo_loop.simps char_at_def strncmp_colons_def
          IsEnd_def Resolve_def FindTypeInfo_def FindTypeInfoNolock_def type_A_def type_B_def
          type_C_def type_Z_def abc_sys_def)
  from ResolveTypeInfo_empty_and_trailing [OF h, of None abc_sys] r h
  show ?thesis by simp
qed

text \<open>
  The claim as stated fails: the empty path with base \<open>A\<close> resolves to \<open>A\<close>, and the
  path \<open>A::\<close> resolves to \<open>A\<close>.
\<close>

theorem resolve_empty_and_trailing_counterexample:
  "ResolveTypeInfo [] (Some 0x100) abc_sys = Some 0x100
   \<and> ResolveTypeInfo ''A::'' None abc_sys = Some 0x100"
  by (simp add: ResolveTypeInfo_def type_resolution_iterator_new_def Increment_def
        Increment_loop.simps ResolveTypeInfo_loop.simps char_at_def strncmp_colons_def IsEnd_def
        Resolve_def FindTypeInfo_def FindTypeInfoNolock_def type_A_def type_B_def type_C_def
        type_Z_def abc_sys_def)

text \<open>
  C4. \<open>Construct\<close> on a descriptor with a finite chain and a payload destructor that does
  not throw returns; when it does not return an object it returns \<open>nullptr\<close>, and then the
  constructed plugin structs, the blocks of the allocator and the reference counts of all
  descriptors are what they were before the call. This covers a zero size, an allocation
  failure, a failing payload constructor and a failing plugin constructor at any level.
\<close>

theorem construct_failure_unwinds:
  assumes ch: "inheritance_chain (typeInfos w) d cs" and ti: "typeInfos w d = Some ti"
    and nothrow: "\<forall>mem. tDestruct (tInterface ti) mem = None"
  shows "\<exists>r w'. Construct al d p w = Some (r, w') \<and>
           ((\<exists>obj. r = Inr (Some obj)) \<or>
            (r = Inr None \<and> livePlugins w' = livePlugins w \<and> allocated w' = allocated w
               \<and> typeInfos w' = typeInfos w))"
  unfolding Construct_chain [OF ch ti]
  by (auto simp: construct_result_def placement_result_def Let_def nothrow
           split: option.splits)

text \<open>
  The theorem at a type with two plugins of which the second fails to construct.
\<close>

theorem construct_failure_unwinds_witness:
  "inheritance_chain (typeInfos x_sys) 0x100 [0x100]
   \<and> typeInfos x_sys 0x100 = Some type_X
   \<and> (\<forall>mem. tDestruct (tInterface type_X) mem = None)
   \<and> (\<exists>w'. Construct example_alloc 0x100 0 x_sys = Some (Inr None, w')
           \<and> livePlugins w' = livePlugins x_sys \<and> allocated w' = allocated x_sys
           \<and> typeInfos w' = typeInfos x_sys)"
proof -
  have ch: "inheritance_chain (typeInfos x_sys) 0x100 [0x100]"
    and ti: "typeInfos x_sys 0x100 = Some type_X"
    and nothrow: "\<forall>mem. tDestruct (tInterface type_X) mem = None"
    by (simp_all add: type_X_def x_sys_def ok_plugin_def failing_plugin_def example_alloc_def
          plain_struct_def structTypeInterface_def)
  have run: "Construct example_alloc 0x100 0 x_sys =
      Some (Inr None, x_sys\<lparr>rttiMem := [0x1100 \<mapsto> \<lparr> type_meta = 0x100 \<rparr>]\<rparr>)"
    unfolding Construct_chain [OF ch ti]
    by (simp add: type_X_def x_sys_def ok_plugin_def failing_plugin_def example_alloc_def
          plain_struct_def structTypeInterface_def construct_result_def struct_size_def
          placement_result_def plugin_block_size_def sizeof_GenericRTTI_def
          STANDARD_OBJECT_ALIGNMENT_def GetPluginSizeByRuntime_def block_constructs_def)
  from construct_failure_unwinds [OF ch ti nothrow, of example_alloc 0] run ch ti nothrow
  show ?thesis by auto
qed

text \<open>
  C5. After a successful \<open>Construct\<close> of a descriptor with chain \<open>cs\<close>, the \<open>refCount\<close> of
  every descriptor of the chain is one more than before; the matching \<open>Destroy\<close> returns
  and leaves every descriptor, and the blocks of the allocator, as they were before the
  construction.
\<close>

theorem construct_destroy_refcounts:
  assumes ch: "inheritance_chain (typeInfos w) d cs" and ti: "typeInfos w d = Some ti"
    and nothrow: "\<forall>mem. tDestruct (tInterface ti) mem = None"
    and ok: "Construct al d p w = Some (Inr (Some obj), w')"
  shows "(\<forall>c \<in> set cs. \<exists>tc tc'. typeInfos w c = Some tc \<and> typeInfos w' c = Some tc'
                              \<and> refCount tc' = refCount tc + 1)
       \<and> (\<exists>w''. Destroy obj w' = Some (Inr (), w'') \<and> typeInfos w'' = typeInfos w
                 \<and> allocated w'' = allocated w)"
proof
  note w' = Construct_success [OF ch ti ok]
  show "\<forall>c \<in> set cs. \<exists>tc tc'. typeInfos w c = Some tc \<and> typeInfos w' c = Some tc'
                              \<and> refCount tc' = refCount tc + 1"
  proof
    fix c assume c: "c \<in> set cs"
    from inheritance_chain_dom [OF ch c] obtain tc where tc: "typeInfos w c = Some tc" by blast
    with c show "\<exists>tc tc'. typeInfos w c = Some tc \<and> typeInfos w' c = Some tc'
                              \<and> refCount tc' = refCount tc + 1"
      by (simp add: w' adjust_refCount_def)
  qed
  have ch': "inheritance_chain (typeInfos w') d cs" using ch by (simp add: w')
  have ti': "typeInfos w' d = Some (ti\<lparr>refCount := refCount ti + 1\<rparr>)"
    using ti inheritance_chain_mem [OF ch] by (simp add: w' adjust_refCount_def)
  have hdr: "rttiMem w' obj = Some \<lparr> type_meta = d \<rparr>" by (simp add: w')
  have nt: "tDestruct (tInterface (ti\<lparr>refCount := refCount ti + 1\<rparr>)) (obj + 1 * sizeof_GenericRTTI) = None"
    using nothrow by simp
  from Destroy_chain [OF ch' ti' hdr nt]
  show "\<exists>w''. Destroy obj w' = Some (Inr (), w'') \<and> typeInfos w'' = typeInfos w
                 \<and> allocated w'' = allocated w"
    by (simp add: w' adjust_refCount_inverse)
qed

text \<open>
  The theorem at the chain \<open>A \<leftarrow> B \<leftarrow> C\<close>: one instance of \<open>C\<close> makes the three counts 1,
  its destruction makes them 0.
\<close>

theorem construct_destroy_refcounts_witness:
  "inheritance_chain (typeInfos abc_sys) 0x300 [0x300, 0x200, 0x100]
   \<and> typeInfos abc_sys 0x300 = Some type_C
   \<and> (\<forall>mem. tDestruct (tInterface type_C) mem = None)
   \<and> (\<exists>w'. Construct example_alloc 0x300 0 abc_sys = Some (Inr (Some 0x1400), w')
         \<and> map_option refCount (typeInfos w' 0x100) = Some 1
         \<and> map_option refCount (typeInfos w' 0x200) = Some 1
         \<and> map_option refCount (typeInfos w' 0x300) = Some 1
         \<and> (\<exists>w''. Destroy 0x1400 w' = Some (Inr (), w'')
               \<and> map_option refCount (typeInfos w'' 0x100) = Some 0
               \<and> map_option refCount (typeInfos w'' 0x200) = Some 0
               \<and> map_option refCount (typeInfos w'' 0x300) = Some 0
               \<and> allocated w'' = allocated abc_sys))"
proof -
  have ch: "inheritance_chain (typeInfos abc_sys) 0x300 [0x300, 0x200, 0x100]"
    and ti: "typeInfos abc_sys 0x300 = Some type_C"
    and nothrow: "\<forall>mem. tDestruct (tInterface type_C) mem = None"
    by (simp_all add: type_A_def type_B_def type_C_def type_Z_def abc_sys_def ok_plugin_def
          example_alloc_def plain_struct_def structTypeInterface_def)
  have "fst (construct_result example_alloc 0x300 [0x300, 0x200, 0x100] (tInterface type_C) 0 abc_sys)
      = Inr (Some 0x1400)"
    by (simp add: type_A_def type_B_def type_C_def type_Z_def abc_sys_def ok_plugin_def
          example_alloc_def plain_struct_def structTypeInterface_def construct_result_def
          struct_size_def placement_result_def plugin_block_size_def sizeof_GenericRTTI_def
          STANDARD_OBJECT_ALIGNMENT_def GetPluginSizeByRuntime_def block_constructs_def)
  then obtain w' where run: "Construct example_alloc 0x300 0 abc_sys = Some (Inr (Some 0x1400), w')"
    unfolding Construct_chain [OF ch ti] by (metis prod.collapse)
  from construct_destroy_refcounts [OF ch ti nothrow run]
  have inc: "\<forall>c \<in> set [0x300, 0x200, 0x100]. \<exists>tc tc'. typeInfos abc_sys c = Some tc \<and> typeInfos w' c = Some tc'
                              \<and> refCount tc' = refCount tc + 1"
    and "\<exists>w''. Destroy 0x1400 w' = Some (Inr (), w'') \<and> typeInfos w'' = typeInfos abc_sys
                 \<and> allocated w'' = allocated abc_sys"
    by blast+
  then obtain w'' where d: "Destroy 0x1400 w' = Some (Inr (), w'')"
      "typeInfos w'' = typeInfos abc_sys" "allocated w'' = allocated abc_sys"
    by blast
  have raised: "map_option refCount (typeInfos w' 0x100) = Some 1"
      "map_option refCount (typeInfos w' 0x200) = Some 1"
      "map_option refCount (typeInfos w' 0x300) = Some 1"
    using inc by (auto simp: type_A_def type_B_def type_C_def type_Z_def abc_sys_def
          ok_plugin_def example_alloc_def plain_struct_def structTypeInterface_def)
  have restored: "map_option refCount (typeInfos w'' 0x100) = Some 0"
      "map_option refCount (typeInfos w'' 0x200) = Some 0"
      "map_option refCount (typeInfos w'' 0x300) = Some 0"
    unfolding d(2) by (simp_all add: type_A_def type_B_def type_C_def type_Z_def abc_sys_def
          ok_plugin_def example_alloc_def plain_struct_def structTypeInterface_def)
  from ch ti nothrow run raised d(1,3) restored show ?thesis by blast
qed

text \<open>
  C6. For a descriptor \<open>d\<close> with chain \<open>cs\<close> (\<open>d\<close> and its ancestors), \<open>GetTypeStructSize\<close>
  is \<open>sizeof( GenericRTTI )\<close> plus the payload size plus the plugin block sizes of the chain
  when the payload size is not zero, and zero when it is (in \<open>size_t\<close> arithmetic).
\<close>

theorem GetTypeStructSize_sum:
  assumes "inheritance_chain (typeInfos w) d cs" and "typeInfos w d = Some ti"
  shows "(GetTypeSize (tInterface ti) p \<noteq> 0 \<longrightarrow>
            GetTypeStructSize d p w =
              Some (sizeof_GenericRTTI + GetTypeSize (tInterface ti) p
                      + sum_list (map (plugin_block_size (typeInfos w)) cs)))
       \<and> (GetTypeSize (tInterface ti) p = 0 \<longrightarrow> GetTypeStructSize d p w = Some 0)"
  using GetTypeStructSize_chain [OF assms, of p] by (simp add: add.commute)

text \<open>
  The theorem at \<open>C\<close> (8 + 8 + 0 + 4 + 4 = 24) and at the type \<open>Z\<close> of payload size zero.
\<close>

theorem GetTypeStructSize_sum_witness:
  "inheritance_chain (typeInfos abc_sys) 0x300 [0x300, 0x200, 0x100]
   \<and> typeInfos abc_sys 0x300 = Some type_C
   \<and> GetTypeStructSize 0x300 0 abc_sys = Some 24
   \<and> inheritance_chain (typeInfos abc_sys) 0x400 [0x400]
   \<and> typeInfos abc_sys 0x400 = Some type_Z
   \<and> GetTypeStructSize 0x400 0 abc_sys = Some 0"
proof -
  have c: "inheritance_chain (typeInfos abc_sys) 0x300 [0x300, 0x200, 0x100]"
    and tc: "typeInfos abc_sys 0x300 = Some type_C"
    and z: "inheritance_chain (typeInfos abc_sys) 0x400 [0x400]"
    and tz: "typeInfos abc_sys 0x400 = Some type_Z"
    by (simp_all add: type_A_def type_B_def type_C_def type_Z_def abc_sys_def ok_plugin_def
          example_alloc_def plain_struct_def structTypeInterface_def)
  from GetTypeStructSize_sum [OF c tc, of 0] GetTypeStructSize_sum [OF z tz, of 0] c tc z tz
  show ?thesis
    by (simp add: type_A_def type_B_def type_C_def type_Z_def abc_sys_def ok_plugin_def
          example_alloc_def plain_struct_def structTypeInterface_def plugin_block_size_def
          sizeof_GenericRTTI_def GetPluginSizeByRuntime_def)
qed




text \<open>
  C8. On a descriptor with \<open>refCount > 0\<close>, \<open>RegisterPlugin\<close>, \<open>UnregisterPlugin\<close> and
  \<open>SetTypeInfoInheritingClass\<close> fail their assertion \<open>IsImmutable() == false\<close>; with
  \<open>refCount == 0\<close> that assertion holds.
\<close>

theorem immutable_descriptor_asserts:
  assumes ti: "typeInfos w d = Some ti" and desc: "typeInfo desc = Some d"
  shows "(0 < refCount ti \<longrightarrow>
            RegisterPlugin sz desc intf w = Some (Inl assertion_failure, w)
          \<and> UnregisterPlugin d off w = Some (Inl assertion_failure, w)
          \<and> SetTypeInfoInheritingClass d parent w = Some (Inl assertion_failure, w))
       \<and> (refCount ti = 0 \<longrightarrow>
            rtti_assert (IsImmutable ti = False) = Inr ()
          \<and> (\<exists>tok w'. RegisterPlugin sz desc intf w = Some (Inr tok, w'))
          \<and> (\<exists>w'. UnregisterPlugin d off w = Some (Inr (), w')))"
  using ti desc
  by (auto simp: RegisterPlugin_def UnregisterPlugin_def SetTypeInfoInheritingClass_def
        rtti_assert_def IsImmutable_def Let_def word_greater_zero_iff
        split: prod.splits)

text \<open>
  The theorem at a type with one live instance and at the same type without.
\<close>

theorem immutable_descriptor_asserts_witness:
  "typeInfos busy_sys 0x100 = Some (type_T\<lparr>refCount := 1\<rparr>)
   \<and> (0::ulong) < refCount (type_T\<lparr>refCount := 1\<rparr>)
   \<and> RegisterPlugin 4 \<lparr> pluginId = 7, typeInfo = Some 0x100 \<rparr> ok_plugin busy_sys
        = Some (Inl assertion_failure, busy_sys)
   \<and> UnregisterPlugin 0x100 0 busy_sys = Some (Inl assertion_failure, busy_sys)
   \<and> SetTypeInfoInheritingClass 0x100 None busy_sys = Some (Inl assertion_failure, busy_sys)
   \<and> typeInfos idle_sys 0x100 = Some type_T
   \<and> refCount type_T = 0
   \<and> rtti_assert (IsImmutable type_T = False) = Inr ()
   \<and> (\<exists>tok w'. RegisterPlugin 4 \<lparr> pluginId = 7, typeInfo = Some 0x100 \<rparr> ok_plugin idle_sys
         = Some (Inr tok, w'))
   \<and> (\<exists>w'. UnregisterPlugin 0x100 0 idle_sys = Some (Inr (), w'))"
proof -
  have busy: "typeInfos busy_sys 0x100 = Some (type_T\<lparr>refCount := 1\<rparr>)"
    and idle: "typeInfos idle_sys 0x100 = Some type_T"
    and desc: "typeInfo \<lparr> pluginId = 7, typeInfo = Some 0x100 \<rparr> = Some 0x100"
    and pos: "(0::ulong) < refCount (type_T\<lparr>refCount := 1\<rparr>)"
    and zero: "refCount type_T = 0"
    by (simp_all add: type_T_def busy_sys_def idle_sys_def ok_plugin_def example_alloc_def
          plain_struct_def structTypeInterface_def)
  from immutable_descriptor_asserts [OF busy desc, of 4 ok_plugin 0 None]
       immutable_descriptor_asserts [OF idle desc, of 4 ok_plugin 0 None]
       busy idle pos zero
  show ?thesis by simp
qed

text \<open>
  C9. Converting an object header pointer to its payload pointer and back gives the
  header pointer again.
\<close>

theorem header_payload_roundtrip:
  "GetTypeStructFromObject (GetObjectFromTypeStruct rtObj) = rtObj"
  by (simp add: GetTypeStructFromObject_def GetObjectFromTypeStruct_def)

text \<open>
  C10. \<open>IsTypeInheritingFrom\<close> is reflexive: every type inherits from itself.
\<close>

theorem IsTypeInheritingFrom_reflexive: "IsTypeInheritingFrom t t w = Some True"
  by (subst IsTypeInheritingFrom.simps) (simp add: IsSameType_def)

end
